theory Spec2Isabelle
  imports Complex_Main "HOL-Library.Multiset"
begin

section \<open>Orbit parameter readers (argo-state.js)\<close>

text \<open>
  The sliders live in the DOM. \<open>_getSlider(id, f)\<close> returns the parsed value of the
  element when it exists and the fallback \<open>f\<close> otherwise; the DOM is modelled as a
  partial map from element ids to the numbers the sliders hold. JavaScript numbers are
  modelled as reals throughout.
\<close>

type_synonym dom = "string \<rightharpoonup> real"

definition getSlider :: "dom \<Rightarrow> string \<Rightarrow> real \<Rightarrow> real" where
  "getSlider d ident f = (case d ident of Some v \<Rightarrow> v | None \<Rightarrow> f)"

definition orbitDensity :: "dom \<Rightarrow> real" where
  "orbitDensity d = getSlider d ''orbit-density'' 40"

definition orbitScatter :: "dom \<Rightarrow> real" where
  "orbitScatter d = getSlider d ''orbit-scatter'' 35"

definition orbitDrift :: "dom \<Rightarrow> real" where
  "orbitDrift d = getSlider d ''orbit-drift'' 50"

definition orbitGhosts :: "dom \<Rightarrow> real" where
  "orbitGhosts d = getSlider d ''orbit-ghosts'' 30"

definition orbitWarmth :: "dom \<Rightarrow> real" where
  "orbitWarmth d = getSlider d ''orbit-warmth'' 60"

text \<open>
  Every function that calls \<open>Math.random()\<close> takes the value drawn, a real \<open>r\<close>
  with \<open>0 \<le> r < 1\<close>, as an argument.
\<close>

definition calcBurstCount :: "dom \<Rightarrow> real \<Rightarrow> int" where
  "calcBurstCount d r = 1 + \<lfloor>(orbitDensity d / 100) * 6\<rfloor> + \<lfloor>r * 2\<rfloor>"

definition calcBurstMs :: "dom \<Rightarrow> real \<Rightarrow> real" where
  "calcBurstMs d r = (200 + (orbitDensity d / 100) * 800) + r * 500"

definition calcGapMs :: "dom \<Rightarrow> real \<Rightarrow> real" where
  "calcGapMs d r = (300 + ((100 - orbitDensity d) / 100) * 2200) + r * 1500"

definition calcSilenceMs :: "dom \<Rightarrow> real \<Rightarrow> real" where
  "calcSilenceMs d r = (2000 + ((100 - orbitDensity d) / 100) * 5000) + r * 3000"

definition calcScatterProb :: "dom \<Rightarrow> real" where
  "calcScatterProb d = (orbitScatter d / 100) * (6 / 10)"

definition calcGhostCount :: "dom \<Rightarrow> real \<Rightarrow> int" where
  "calcGhostCount d r =
     (let g = orbitGhosts d in
      if g < 5 then 0 else \<lfloor>(g / 100) * 5\<rfloor> + \<lfloor>r * 2\<rfloor>)"

definition calcGhostAmp :: "dom \<Rightarrow> real" where
  "calcGhostAmp d = 5 / 1000 + (orbitGhosts d / 100) * (25 / 1000)"

definition calcWarmthFreq :: "dom \<Rightarrow> real" where
  "calcWarmthFreq d = 200 + (orbitWarmth d / 100) * 3800"

definition calcDriftSpeed :: "dom \<Rightarrow> real" where
  "calcDriftSpeed d = 1 / 100 + (orbitDrift d / 100) * (15 / 100)"

definition calcDriftRange :: "dom \<Rightarrow> real" where
  "calcDriftRange d = 400 + (orbitDrift d / 100) * 2000"

text \<open>
  The octave decision of \<open>_playGhostNote\<close>: the factor applied to the chosen
  frequency for the roll \<open>octRoll\<close>.
\<close>

definition ghostOctaveFactor :: "dom \<Rightarrow> real \<Rightarrow> real" where
  "ghostOctaveFactor d octRoll =
     (let scatterProb = calcScatterProb d in
      if octRoll < scatterProb * (3 / 10) then 2
      else if octRoll < scatterProb * (6 / 10) then 1 / 2
      else 1)"


section \<open>Shareable state codec (argo-state.js)\<close>

text \<open>
  The snapshot built by \<open>captureOrbitState\<close>. The fields are those of the object
  literal; the nested objects \<open>fx\<close> and \<open>params\<close> are records of their own. Field
  names carry a prefix, since \<open>v\<close>, \<open>key\<close> and \<open>filter\<close> are taken.
\<close>

record fx_toggles =
  fx_filter :: bool
  fx_delay :: bool
  fx_reverb :: bool
  fx_arp :: bool

record fx_params =
  p_filterFreq :: real
  p_filterRes :: real
  p_delayDepth :: real
  p_delayTime :: real
  p_reverbDepth :: real
  p_arpSpeed :: real
  p_morphTime :: real

record shareable_state =
  st_v :: int
  st_orbit :: bool
  st_key :: int
  st_scale :: string
  st_density :: real
  st_scatter :: real
  st_drift :: real
  st_ghosts :: real
  st_warmth :: real
  st_fx :: fx_toggles
  st_params :: fx_params

type_synonym checkboxes = "string \<rightharpoonup> bool"

definition getCheckbox :: "checkboxes \<Rightarrow> string \<Rightarrow> bool \<Rightarrow> bool" where
  "getCheckbox cb ident f = (case cb ident of Some b \<Rightarrow> b | None \<Rightarrow> f)"

definition captureOrbitState :: "dom \<Rightarrow> checkboxes \<Rightarrow> int \<Rightarrow> string \<Rightarrow> shareable_state" where
  "captureOrbitState d cb currentKey currentScale =
     \<lparr> st_v = 2,
       st_orbit = True,
       st_key = currentKey,
       st_scale = currentScale,
       st_density = orbitDensity d,
       st_scatter = orbitScatter d,
       st_drift = orbitDrift d,
       st_ghosts = orbitGhosts d,
       st_warmth = orbitWarmth d,
       st_fx = \<lparr> fx_filter = getCheckbox cb ''filter-toggle'' True,
                 fx_delay = getCheckbox cb ''delay-toggle'' True,
                 fx_reverb = getCheckbox cb ''reverb-toggle'' True,
                 fx_arp = getCheckbox cb ''arp-toggle'' True \<rparr>,
       st_params = \<lparr> p_filterFreq = getSlider d ''filter-freq'' (6 / 10),
                     p_filterRes = getSlider d ''filter-res'' (1 / 10),
                     p_delayDepth = getSlider d ''delay-depth'' (3 / 10),
                     p_delayTime = getSlider d ''delay-time'' (25 / 100),
                     p_reverbDepth = getSlider d ''reverb-depth'' (5 / 10),
                     p_arpSpeed = getSlider d ''arp-speed'' 180,
                     p_morphTime = getSlider d ''morph-time'' 500 \<rparr> \<rparr>"

subsection \<open>Exceptions and the platform\<close>

text \<open>
  A call that can throw returns \<open>js_error + 'a\<close>, \<open>Inl\<close> being the exception. The
  functions the codec takes from its environment are the fields of a record: \<open>JSON\<close> of
  the language, the \<open>pako\<close> library (absent when \<open>has_pako\<close> is false), and the
  UTF-8 idioms \<open>unescape(encodeURIComponent(s))\<close> and \<open>decodeURIComponent(escape(s))\<close>.
  A string of the model is a list of bytes, so a \<open>Uint8Array\<close> and the binary string
  \<open>String.fromCharCode.apply(null, c)\<close> built from it are the same value.
\<close>

datatype js_error = Thrown

record 'st platform =
  has_pako :: bool
  JSON_stringify :: "'st \<Rightarrow> js_error + string"
  JSON_parse :: "string \<Rightarrow> js_error + 'st"
  pako_deflate :: "string \<Rightarrow> js_error + string"
  pako_inflate :: "string \<Rightarrow> js_error + string"
  utf8_encode :: "string \<Rightarrow> js_error + string"
  utf8_decode :: "string \<Rightarrow> js_error + string"

subsection \<open>\<open>btoa\<close> and \<open>atob\<close>\<close>

definition b64_alphabet :: string where
  "b64_alphabet = ''ABCDEFGHIJKLMNOPQRSTUVWXYZabcdefghijklmnopqrstuvwxyz0123456789+/''"


fun index_of :: "'a \<Rightarrow> 'a list \<Rightarrow> nat option" where
  "index_of c [] = None"
| "index_of c (x # xs) = (if c = x then Some 0 else map_option Suc (index_of c xs))"

definition b64_value :: "char \<Rightarrow> nat option" where
  "b64_value c = index_of c b64_alphabet"





text \<open>
  \<open>atob\<close> is the forgiving base64 decoder of the HTML standard: ASCII whitespace is
  removed; when the length is a multiple of 4, one or two trailing \<open>=\<close> are removed; a
  length of 1 modulo 4 or a character outside the alphabet throws; the bits left over at
  the end are dropped.
\<close>

definition is_ascii_whitespace :: "char \<Rightarrow> bool" where
  "is_ascii_whitespace c \<longleftrightarrow> c \<in> {CHR 0x09, CHR 0x0A, CHR 0x0C, CHR 0x0D, CHR 0x20}"

definition drop_padding :: "string \<Rightarrow> string" where
  "drop_padding d =
     (case rev d of
        x # y # r \<Rightarrow> if x = CHR ''='' \<and> y = CHR ''='' then rev r
                     else if x = CHR ''='' then rev (y # r) else d
      | [x] \<Rightarrow> if x = CHR ''='' then [] else d
      | [] \<Rightarrow> d)"

fun decode_sextets :: "nat list \<Rightarrow> nat list" where
  "decode_sextets (s0 # s1 # s2 # s3 # rest) =
     [s0 * 4 + s1 div 16, (s1 mod 16) * 16 + s2 div 4, (s2 mod 4) * 64 + s3]
       @ decode_sextets rest"
| "decode_sextets [s0, s1, s2] = [s0 * 4 + s1 div 16, (s1 mod 16) * 16 + s2 div 4]"
| "decode_sextets [s0, s1] = [s0 * 4 + s1 div 16]"
| "decode_sextets [s0] = []"
| "decode_sextets [] = []"

definition atob :: "string \<Rightarrow> js_error + string" where
  "atob s =
     (let d = filter (\<lambda>c. \<not> is_ascii_whitespace c) s;
          d = (if length d mod 4 = 0 then drop_padding d else d)
      in if length d mod 4 = 1 then Inl Thrown
         else (case those (map b64_value d) of
                 None \<Rightarrow> Inl Thrown
               | Some vs \<Rightarrow> Inr (map char_of (decode_sextets vs))))"

subsection \<open>\<open>serializeToURL\<close> and \<open>deserializeFromURL\<close>\<close>

definition replace_all :: "char \<Rightarrow> char \<Rightarrow> string \<Rightarrow> string" where
  "replace_all a b s = map (\<lambda>c. if c = a then b else c) s"


text \<open>A \<open>try { ... } catch (e) { return null; }\<close> around a body that can throw.\<close>

definition catch_null :: "js_error + 'a \<Rightarrow> js_error + 'a option" where
  "catch_null body = (case body of Inl e \<Rightarrow> Inr None | Inr x \<Rightarrow> Inr (Some x))"

definition bind_js :: "js_error + 'a \<Rightarrow> ('a \<Rightarrow> js_error + 'b) \<Rightarrow> js_error + 'b" where
  "bind_js m f = (case m of Inl e \<Rightarrow> Inl e | Inr x \<Rightarrow> f x)"



text \<open>\<open>while (b.length % 4) b += '='\<close>\<close>

lemma pad4_measure:
  "(n::nat) mod 4 \<noteq> 0 \<Longrightarrow> (4 - (n + 1) mod 4) mod 4 < (4 - n mod 4) mod 4"
proof -
  assume a: "n mod 4 \<noteq> 0"
  define k where "k = n mod 4"
  have k: "k < 4" "k \<noteq> 0" using a by (simp_all add: k_def)
  have s: "(n + 1) mod 4 = (if Suc k = 4 then 0 else Suc k)"
    by (simp add: mod_Suc k_def)
  from k consider "k = 1" | "k = 2" | "k = 3" by linarith
  then have "(4 - (if Suc k = 4 then 0 else Suc k)) mod 4 < (4 - k) mod 4"
    by cases simp_all
  then show ?thesis by (simp only: s k_def)
qed

function pad4 :: "string \<Rightarrow> string" where
  "pad4 b = (if length b mod 4 \<noteq> 0 then pad4 (b @ ''='') else b)"
  by pat_completeness auto
termination
proof (relation "measure (\<lambda>b. (4 - length b mod 4) mod 4)")
  show "wf (measure (\<lambda>b. (4 - length b mod 4) mod 4))" by simp
next
  fix b :: string
  assume "length b mod 4 \<noteq> 0"
  then have "(4 - (length b + 1) mod 4) mod 4 < (4 - length b mod 4) mod 4"
    by (rule pad4_measure)
  then show "(b @ ''='', b) \<in> measure (\<lambda>b. (4 - length b mod 4) mod 4)"
    by simp
qed

declare pad4.simps [simp del]

definition deserialize_body :: "'st platform \<Rightarrow> string \<Rightarrow> js_error + 'st" where
  "deserialize_body pf encoded =
     (if has_pako pf then
        (let b = replace_all (CHR ''_'') (CHR ''/'') (replace_all (CHR ''-'') (CHR ''+'') encoded);
             b = pad4 b
         in bind_js (atob b) (\<lambda>bin.
              bind_js (pako_inflate pf bin) (\<lambda>json. JSON_parse pf json)))
      else
        bind_js (atob encoded) (\<lambda>bin.
          bind_js (utf8_decode pf bin) (\<lambda>json. JSON_parse pf json)))"

definition deserializeFromURL :: "'st platform \<Rightarrow> string \<Rightarrow> js_error + 'st option" where
  "deserializeFromURL pf encoded = catch_null (deserialize_body pf encoded)"

text \<open>The string that \<open>deserializeFromURL\<close> hands to \<open>atob\<close>.\<close>

definition decoder_input :: "'st platform \<Rightarrow> string \<Rightarrow> string" where
  "decoder_input pf encoded =
     (if has_pako pf
      then pad4 (replace_all (CHR ''_'') (CHR ''/'') (replace_all (CHR ''-'') (CHR ''+'') encoded))
      else encoded)"

text \<open>
  A small platform on which the codec can be run: \<open>JSON\<close> knows one state, the one
  \<open>captureOrbitState\<close> builds from an empty page, and writes it as the text
  \<open>state\<close>; deflate stores its input unchanged.
\<close>

definition sample_platform :: "shareable_state platform" where
  "sample_platform =
     \<lparr> has_pako = True,
       JSON_stringify = (\<lambda>s. Inr ''state''),
       JSON_parse = (\<lambda>j. if j = ''state''
                           then Inr (captureOrbitState Map.empty Map.empty 0 ''major'')
                           else Inl Thrown),
       pako_deflate = Inr,
       pako_inflate = Inr,
       utf8_encode = Inr,
       utf8_decode = Inr \<rparr>"

section \<open>Transition graph builder (\<open>processData\<close>)\<close>

text \<open>
  The builder exists twice, in the desktop sketch and in the mobile sketch. The two differ
  in \<open>mapCsvChordToRoman\<close> and in the weight of a synthetic edge; everything else is
  the same text, modelled once with these two as arguments.

  A chord name is a string or \<open>null\<close> (\<open>mapCsvChordToRoman\<close> returns \<open>null\<close> for an
  empty cell), hence \<open>string option\<close> with \<open>None\<close> for \<open>null\<close>. Strings are byte
  strings: the degree sign of the source is its two UTF-8 bytes. Probabilities and radii
  are reals.
\<close>

type_synonym chord_name = "string option"

record transition =
  t_next :: chord_name
  t_prob :: real

record layout_node =
  ln_name :: string
  ln_func :: string
  ln_r :: real
  ln_theta :: real

record prob_row =
  row_chord :: string
  row_prob :: real

record trans_row =
  row_current :: string
  row_next :: string
  row_probability :: real

subsection \<open>\<open>mapCsvChordToRoman\<close>, desktop sketch\<close>

definition degree_sign :: string where
  "degree_sign = [CHR 0xC2, CHR 0xB0]"

definition is_digit :: "char \<Rightarrow> bool" where
  "is_digit c \<longleftrightarrow> c \<in> set ''0123456789''"

text \<open>The dot of a regular expression matches every character but a line terminator.\<close>

definition is_dot :: "char \<Rightarrow> bool" where
  "is_dot c \<longleftrightarrow> c \<noteq> CHR 0x0A \<and> c \<noteq> CHR 0x0D"

text \<open>\<open>name.replace(/\(.*$/, '')\<close>: cut at the first parenthesis that the dots can follow
  to the end of the string.\<close>

fun strip_parenthetical :: "string \<Rightarrow> string" where
  "strip_parenthetical [] = []"
| "strip_parenthetical (c # cs) =
     (if c = CHR ''('' \<and> list_all is_dot cs then [] else c # strip_parenthetical cs)"

text \<open>\<open>name.match(/^([#b]?\d)(.*)$/)\<close>: the two groups, or \<open>None\<close> for no match.\<close>

fun match_degree :: "string \<Rightarrow> (string \<times> string) option" where
  "match_degree (c # d # rest) =
     (if (c = CHR ''#'' \<or> c = CHR ''b'') \<and> is_digit d
      then (if list_all is_dot rest then Some ([c, d], rest) else None)
      else if is_digit c \<and> list_all is_dot (d # rest) then Some ([c], d # rest)
      else None)"
| "match_degree [c] = (if is_digit c then Some ([c], []) else None)"
| "match_degree [] = None"

definition romanMap :: "(string \<times> string) list" where
  "romanMap =
     [(''1'', ''I''), (''2'', ''II''), (''3'', ''III''), (''4'', ''IV''), (''5'', ''V''),
      (''6'', ''VI''), (''7'', ''VII''),
      (''#1'', ''#I''), (''#2'', ''#II''), (''#4'', ''#IV''), (''#5'', ''#V''),
      (''b2'', ''bII''), (''b3'', ''bIII''), (''b5'', ''bV''), (''b6'', ''bVI''),
      (''b7'', ''bVII'')]"

fun str_includes :: "string \<Rightarrow> string \<Rightarrow> bool" where
  "str_includes [] sub = (sub = [])"
| "str_includes (c # cs) sub = (take (length sub) (c # cs) = sub \<or> str_includes cs sub)"


definition lower_char :: "char \<Rightarrow> char" where
  "lower_char c =
     (let n = (of_char c :: nat) in if 65 \<le> n \<and> n \<le> 90 then char_of (n + 32) else c)"

definition toLowerCase :: "string \<Rightarrow> string" where
  "toLowerCase s = map lower_char s"

definition mapCsvChordToRoman :: "string \<Rightarrow> chord_name" where
  "mapCsvChordToRoman csvName =
     (if csvName = [] then None
      else
        let name = strip_parenthetical csvName in
        case match_degree name of
          None \<Rightarrow> Some name
        | Some (rootNum, quality) \<Rightarrow>
            let roman = (case map_of romanMap rootNum of Some x \<Rightarrow> x | None \<Rightarrow> rootNum);
                isMinorQuality = (str_includes quality ''m'' \<and> \<not> str_includes quality ''maj'');
                isDim = (str_includes quality ''dim'' \<or> str_includes quality degree_sign
                         \<or> quality = ''07'');
                roman = (if isMinorQuality \<or> isDim then toLowerCase roman else roman)
            in if quality = ''07'' then Some (roman @ degree_sign @ ''7'')
               else Some (roman @ quality))"

subsection \<open>\<open>mapCsvChordToRoman\<close>, mobile sketch\<close>







subsection \<open>\<open>Array.prototype.sort\<close> with a comparator\<close>

text \<open>
  The sort is stable: an element moves in front of those the comparator puts strictly
  after it and of no others. The comparator returns a number, negative when its first
  argument goes first.
\<close>

fun js_insert :: "('a \<Rightarrow> 'a \<Rightarrow> real) \<Rightarrow> 'a \<Rightarrow> 'a list \<Rightarrow> 'a list" where
  "js_insert cmp x [] = [x]"
| "js_insert cmp x (y # ys) = (if cmp x y \<le> 0 then x # y # ys else y # js_insert cmp x ys)"

fun js_sort :: "('a \<Rightarrow> 'a \<Rightarrow> real) \<Rightarrow> 'a list \<Rightarrow> 'a list" where
  "js_sort cmp [] = []"
| "js_sort cmp (x # xs) = js_insert cmp x (js_sort cmp xs)"

subsection \<open>The steps of \<open>processData\<close>\<close>

type_synonym transitions = "chord_name \<rightharpoonup> transition list"
type_synonym probabilities = "chord_name \<rightharpoonup> real"

definition ALIASES :: "(string \<times> string) list" where
  "ALIASES =
     [(''IIImMaj7'', ''IIImaj7''), (''ImMaj7'', ''Imaj7''), (''bVImMaj7'', ''bVImaj7''),
      (''bIImMaj7'', ''bIImaj7''), (''IVmMaj7'', ''IVmaj7''), (''bIIImMaj7'', ''bIIImaj7''),
      (''VIImMaj7'', ''VIImaj7''), (''ivmaj7'', ''IVmaj7''), (''IVm6'', ''ivm6'')]"

text \<open>Step 1: \<open>if (romanName) CHORD_PROBABILITIES.set(romanName, prob)\<close>; the empty string
  is falsy as \<open>null\<close> is.\<close>

definition setProbability :: "(string \<Rightarrow> chord_name) \<Rightarrow> probabilities \<Rightarrow> prob_row \<Rightarrow> probabilities" where
  "setProbability mapName cp row =
     (let romanName = mapName (row_chord row) in
      if romanName \<noteq> None \<and> romanName \<noteq> Some [] then cp(romanName \<mapsto> row_prob row) else cp)"

text \<open>Step 2: one row of the transition table is pushed on the list of its source.\<close>

definition pushTransition :: "(string \<Rightarrow> chord_name) \<Rightarrow> transitions \<Rightarrow> trans_row \<Rightarrow> transitions" where
  "pushTransition mapName ct row =
     (let current = mapName (row_current row);
          nxt = mapName (row_next row);
          ct = (if ct current = None then ct(current \<mapsto> []) else ct)
      in ct(current \<mapsto> (case ct current of Some ts \<Rightarrow> ts | None \<Rightarrow> [])
                           @ [\<lparr>t_next = nxt, t_prob = row_probability row\<rparr>]))"

text \<open>Step 3, first loop: a layout spelling without data takes the data of its source.\<close>

definition copyAlias :: "('a option \<rightharpoonup> 'b) \<Rightarrow> ('a \<times> 'a) \<Rightarrow> ('a option \<rightharpoonup> 'b)" where
  "copyAlias m entry =
     (case entry of (alias, source) \<Rightarrow>
        (case m (Some source) of
           Some v \<Rightarrow> if m (Some alias) = None then m(Some alias \<mapsto> v) else m
         | None \<Rightarrow> m))"

text \<open>Step 3, second loop: \<open>reverseAliases[source] = alias\<close>, a later entry replacing an
  earlier one, and the rewriting of a target that no layout node carries.\<close>

definition reverseAliases :: "string \<rightharpoonup> string" where
  "reverseAliases = foldl (\<lambda>ra (alias, source). ra(source \<mapsto> alias)) Map.empty ALIASES"

definition remapTarget :: "string list \<Rightarrow> transition \<Rightarrow> transition" where
  "remapTarget layoutNodeNames tr =
     (case t_next tr of
        None \<Rightarrow> tr
      | Some nx \<Rightarrow>
          (case reverseAliases nx of
             Some alias \<Rightarrow> if nx \<notin> set layoutNodeNames then tr\<lparr>t_next := Some alias\<rparr>
                            else tr
           | None \<Rightarrow> tr))"

definition remapTargets :: "string list \<Rightarrow> transitions \<Rightarrow> transitions" where
  "remapTargets layoutNodeNames ct = (\<lambda>k. map_option (map (remapTarget layoutNodeNames)) (ct k))"

text \<open>Step 4: the comparator that ranks the candidates of a node, and the edges added.\<close>

definition candidateOrder :: "layout_node \<Rightarrow> layout_node \<Rightarrow> layout_node \<Rightarrow> real" where
  "candidateOrder node a b =
     (let funcA = (if ln_func a = ln_func node then 0 else 1);
          funcB = (if ln_func b = ln_func node then 0 else 1)
      in if funcA \<noteq> funcB then funcA - funcB
         else \<bar>ln_r a - ln_r node\<bar> - \<bar>ln_r b - ln_r node\<bar>)"

definition candidates :: "layout_node list \<Rightarrow> layout_node \<Rightarrow> transition list \<Rightarrow> layout_node list" where
  "candidates layoutNodes node trs =
     js_sort (candidateOrder node)
       (filter (\<lambda>n. ln_name n \<noteq> ln_name node \<and> Some (ln_name n) \<notin> set (map t_next trs))
          layoutNodes)"

definition matchingTargets :: "layout_node list \<Rightarrow> transition list \<Rightarrow> transition list" where
  "matchingTargets layoutNodes trs =
     filter (\<lambda>t. t_next t \<in> set (map (\<lambda>n. Some (ln_name n)) layoutNodes)) trs"

definition syntheticEdges :: "(nat \<Rightarrow> real) \<Rightarrow> layout_node list \<Rightarrow> layout_node \<Rightarrow> transition list \<Rightarrow> transition list" where
  "syntheticEdges weight layoutNodes node trs =
     (let needed = 5 - length (matchingTargets layoutNodes trs);
          cands = candidates layoutNodes node trs
      in map (\<lambda>i. \<lparr>t_next = Some (ln_name (cands ! i)), t_prob = weight i\<rparr>)
           [0 ..< min needed (length cands)])"

definition ensureFive :: "(nat \<Rightarrow> real) \<Rightarrow> layout_node list \<Rightarrow> transitions \<Rightarrow> layout_node \<Rightarrow> transitions" where
  "ensureFive weight layoutNodes ct node =
     (let trs = (case ct (Some (ln_name node)) of Some ts \<Rightarrow> ts | None \<Rightarrow> []) in
      if length (matchingTargets layoutNodes trs) \<ge> 5 then ct(Some (ln_name node) \<mapsto> trs)
      else ct(Some (ln_name node) \<mapsto> trs @ syntheticEdges weight layoutNodes node trs))"

subsection \<open>\<open>processData\<close>\<close>

record raw_data =
  majorProbTable :: "prob_row list"
  majorTransTable :: "trans_row list"
  minorProbTable :: "prob_row list"
  minorTransTable :: "trans_row list"
  majorLayoutData :: "layout_node list"
  minorLayoutData :: "layout_node list"

record graph =
  CHORD_PROBABILITIES :: probabilities
  CHORD_TRANSITIONS :: transitions

definition activeLayout :: "raw_data \<Rightarrow> string \<Rightarrow> layout_node list" where
  "activeLayout raw currentScale =
     (if currentScale = ''minor'' then minorLayoutData raw else majorLayoutData raw)"

text \<open>The transitions after steps 2 and 3, before any edge is added.\<close>

definition rawTransitions :: "(string \<Rightarrow> chord_name) \<Rightarrow> raw_data \<Rightarrow> string \<Rightarrow> transitions" where
  "rawTransitions mapName raw currentScale =
     (let isMinor = (currentScale = ''minor'');
          transTable = (if isMinor then minorTransTable raw else majorTransTable raw);
          layoutNodeNames = map ln_name (activeLayout raw currentScale);
          ct = foldl (pushTransition mapName) Map.empty transTable;
          ct = foldl copyAlias ct ALIASES
      in remapTargets layoutNodeNames ct)"

definition processData_with ::
    "(string \<Rightarrow> chord_name) \<Rightarrow> (nat \<Rightarrow> real) \<Rightarrow> raw_data \<Rightarrow> string \<Rightarrow> graph \<Rightarrow> graph" where
  "processData_with mapName weight raw currentScale g =
     (let isMinor = (currentScale = ''minor'');
          probTable = (if isMinor then minorProbTable raw else majorProbTable raw);
          layoutNodes = activeLayout raw currentScale;
          g = g\<lparr>CHORD_PROBABILITIES := Map.empty, CHORD_TRANSITIONS := Map.empty\<rparr>;
          cp = foldl (setProbability mapName) (CHORD_PROBABILITIES g) probTable;
          cp = foldl copyAlias cp ALIASES;
          ct = rawTransitions mapName raw currentScale;
          ct = foldl (ensureFive weight layoutNodes) ct layoutNodes
      in g\<lparr>CHORD_PROBABILITIES := cp, CHORD_TRANSITIONS := ct\<rparr>)"

text \<open>Desktop: \<open>prob: 0.15 - i * 0.02\<close>. Mobile: \<open>prob: 0.02 / (i + 1)\<close>.\<close>

definition desktopWeight :: "nat \<Rightarrow> real" where
  "desktopWeight i = 15 / 100 - real i * (2 / 100)"


definition processData :: "raw_data \<Rightarrow> string \<Rightarrow> graph \<Rightarrow> graph" where
  "processData = processData_with mapCsvChordToRoman desktopWeight"


subsection \<open>The top successors of a node\<close>

text \<open>
  \<open>handleNodePress\<close>, \<open>_orbitArrangeConnected\<close> and \<open>_orbitAutoSelectNext\<close> compute the
  same list \<open>top5\<close>: the transitions of the node whose target is the name of a node on
  screen, sorted by descending probability, the first five.
\<close>

definition top5 :: "transitions \<Rightarrow> string list \<Rightarrow> string \<Rightarrow> transition list" where
  "top5 ct nodeNames name =
     (let allTrans = (case ct (Some name) of Some ts \<Rightarrow> ts | None \<Rightarrow> []);
          valid = filter (\<lambda>t. t_next t \<in> set (map Some nodeNames)) allTrans
      in take 5 (js_sort (\<lambda>a b. t_prob b - t_prob a) valid))"

subsection \<open>Notions used to state the properties\<close>





subsection \<open>A small data set\<close>

text \<open>
  Three layout nodes and three rows of the major transition table. The chord IV has two
  rows to V, one of them in the spelling with a voicing in parentheses that
  \<open>mapCsvChordToRoman\<close> strips; the chord I has one row of probability 0.05.
\<close>

definition sampleLayout :: "layout_node list" where
  "sampleLayout =
     [\<lparr>ln_name = ''I'', ln_func = ''Tonic'', ln_r = 1, ln_theta = 0\<rparr>,
      \<lparr>ln_name = ''IV'', ln_func = ''Subdominant'', ln_r = 2, ln_theta = 1\<rparr>,
      \<lparr>ln_name = ''V'', ln_func = ''Dominant'', ln_r = 2, ln_theta = 2\<rparr>]"

definition sampleRaw :: raw_data where
  "sampleRaw =
     \<lparr>majorProbTable = [\<lparr>row_chord = ''1'', row_prob = 4 / 10\<rparr>],
      majorTransTable =
        [\<lparr>row_current = ''1'', row_next = ''4'', row_probability = 5 / 100\<rparr>,
         \<lparr>row_current = ''4'', row_next = ''5'', row_probability = 5 / 10\<rparr>,
         \<lparr>row_current = ''4'', row_next = ''5(G7)'', row_probability = 3 / 10\<rparr>],
      minorProbTable = [], minorTransTable = [],
      majorLayoutData = sampleLayout, minorLayoutData = []\<rparr>"

definition emptyGraph :: graph where
  "emptyGraph = \<lparr>CHORD_PROBABILITIES = Map.empty, CHORD_TRANSITIONS = Map.empty\<rparr>"

section \<open>Orbit mode controller (argo-state.js)\<close>

text \<open>
  The controller works on the globals of the sketch (\<open>nodes\<close>, \<open>activeNode\<close>,
  \<open>lastPlayedNode\<close>, \<open>orbitMode\<close>, \<open>currentKey\<close>, \<open>CHORD_TRANSITIONS\<close>), on its own
  module variables, on the page (sliders, the arpeggio checkbox, the window size), on the
  audio engine and on the timers of the browser. All of them are fields of one record
  that every function takes and returns.

  \<^item> A variable that holds a node object holds the index of the node in \<open>nodes\<close>; the
    array is rebuilt only by \<open>initAllNodes\<close>, which is not an event of the model.
  \<^item> \<open>setTimeout\<close> adds an entry to the list of pending timers and returns its handle,
    a fresh positive number; \<open>clearTimeout\<close> removes the entry with that handle; a timer
    that fires is removed and then its callback runs, the callback being determined by
    the kind of the timer. Delays are recorded, but any pending timer may fire next.
  \<^item> \<open>Math.random()\<close> reads the next element of a stream of reals.
  \<^item> The audio engine exists from \<open>setup\<close> on; its filter, delay and reverb exist once
    \<open>init\<close> has run (\<open>audioInitialized\<close>). Calls into it are appended to a log.
  \<^item> \<open>_applyOrbitVisuals\<close> changes the style of the page only and is left out.
\<close>

datatype phase = Idle | Centering | Bursting | Silence

record chord_data =
  cd_root :: int
  cd_intervals :: "int list"

record node =
  nd_name :: string
  nd_data :: chord_data
  nd_x :: real
  nd_y :: real
  nd_glow :: real
  nd_receivedGlow :: real
  nd_receivedRank :: nat
  nd_orbitStart :: "(real \<times> real) option"
  nd_orbitTarget :: "(real \<times> real) option"

datatype timer_kind =
    BurstEnd        \<comment> \<open>the timer set by \<open>_orbitPlayBurst\<close>\<close>
  | GapEnd          \<comment> \<open>the timer set in its callback while bursts remain\<close>
  | SilenceEnd      \<comment> \<open>the timer set by \<open>_orbitStartSilence\<close>\<close>
  | GhostNote       \<comment> \<open>a timer of \<open>_scheduleGhostNotes\<close>\<close>
  | ToneRelease     \<comment> \<open>the sustain timer of a sounding ghost tone\<close>
  | ToneDispose     \<comment> \<open>the timer that stops its oscillators\<close>

record timer =
  tm_id :: nat
  tm_kind :: timer_kind
  tm_delay :: real

datatype audio_call =
    StartChord chord_data
  | StopChord
  | FilterFreq real
  | ReverbDryWet real
  | DelayFeedback real
  | DelayTimeSet real
  | SetReverbDepth real
  | SetFilterFreq real
  | SetDelayDepth real
  | SetDelayTime real
  | ToggleArpeggio bool
  | SetArpSpeed real
  | ArpSpeedField real
  | GhostTone "real option" real real real
  | GhostFade
  | GhostStop

record pre_orbit_audio =
  pa_reverbDepth :: real
  pa_filterFreq :: real
  pa_delayDepth :: real
  pa_delayTime :: real

record pre_arp_state =
  ps_arpActive :: bool
  ps_arpSpeed :: real

record orbit_state =
  nodes :: "node list"
  activeNode :: "nat option"
  lastPlayedNode :: "nat option"
  orbitMode :: bool
  currentKey :: int
  chordTransitions :: transitions
  sliders :: dom
  arpToggle :: "bool option"
  windowWidth :: real
  windowHeight :: real
  sidebarWidth :: real
  audioInitialized :: bool
  audioLog :: "audio_call list"
  orbitPhase :: phase
  orbitTimer :: "nat option"
  orbitTransitionStart :: real
  orbitNextNode :: "nat option"
  orbitSavedPositions :: "(string \<times> real \<times> real) list option"
  preOrbitAudio :: "pre_orbit_audio option"
  orbitAutoTriggered :: bool
  orbitVisibleNodes :: "string set"
  orbitCenterNode :: "nat option"
  orbitBurstCount :: int
  orbitPreArpState :: "pre_arp_state option"
  ghostNoteTimers :: "nat list"
  ghostNoteChordData :: "chord_data option"
  filterSweepPhase :: real
  orbitIsSounding :: bool
  timers :: "timer list"
  nextTimerId :: nat
  randomStream :: "nat \<Rightarrow> real"
  randomPos :: nat
  millis :: real

subsection \<open>The environment\<close>

definition random :: "orbit_state \<Rightarrow> real \<times> orbit_state" where
  "random s = (randomStream s (randomPos s), s\<lparr>randomPos := Suc (randomPos s)\<rparr>)"

definition setTimeout :: "timer_kind \<Rightarrow> real \<Rightarrow> orbit_state \<Rightarrow> nat \<times> orbit_state" where
  "setTimeout kind delay s =
     (nextTimerId s,
      s\<lparr>timers := timers s @ [\<lparr>tm_id = nextTimerId s, tm_kind = kind, tm_delay = delay\<rparr>],
        nextTimerId := Suc (nextTimerId s)\<rparr>)"

definition clearTimeout :: "nat \<Rightarrow> orbit_state \<Rightarrow> orbit_state" where
  "clearTimeout h s = s\<lparr>timers := filter (\<lambda>t. tm_id t \<noteq> h) (timers s)\<rparr>"

definition audioCall :: "audio_call \<Rightarrow> orbit_state \<Rightarrow> orbit_state" where
  "audioCall c s = s\<lparr>audioLog := audioLog s @ [c]\<rparr>"

text \<open>\<open>nodes.find(n => n.name === name)\<close>, as the index of the node found.\<close>

fun findNodeFrom :: "nat \<Rightarrow> node list \<Rightarrow> chord_name \<Rightarrow> nat option" where
  "findNodeFrom i [] name = None"
| "findNodeFrom i (n # ns) name =
     (if Some (nd_name n) = name then Some i else findNodeFrom (Suc i) ns name)"

definition findNode :: "orbit_state \<Rightarrow> chord_name \<Rightarrow> nat option" where
  "findNode s name = findNodeFrom 0 (nodes s) name"

text \<open>\<open>nodes[i]\<close> for a number \<open>i\<close>: \<open>undefined\<close> outside the array.\<close>

definition nodeAt :: "orbit_state \<Rightarrow> int \<Rightarrow> nat option" where
  "nodeAt s i = (if 0 \<le> i \<and> i < int (length (nodes s)) then Some (nat i) else None)"

definition updateNode :: "nat \<Rightarrow> (node \<Rightarrow> node) \<Rightarrow> orbit_state \<Rightarrow> orbit_state" where
  "updateNode i f s = s\<lparr>nodes := (nodes s)[i := f (nodes s ! i)]\<rparr>"

definition getCanvasCenter :: "orbit_state \<Rightarrow> real \<times> real" where
  "getCanvasCenter s =
     (sidebarWidth s + (windowWidth s - sidebarWidth s) / 2, windowHeight s / 2)"

definition orbitTop5 :: "orbit_state \<Rightarrow> nat \<Rightarrow> transition list" where
  "orbitTop5 s i = top5 (chordTransitions s) (map nd_name (nodes s)) (nd_name (nodes s ! i))"

subsection \<open>Audio on activation and deactivation\<close>

definition applyOrbitAudio :: "orbit_state \<Rightarrow> orbit_state" where
  "applyOrbitAudio s =
     (let s = s\<lparr>preOrbitAudio := Some
                 \<lparr>pa_reverbDepth = getSlider (sliders s) ''reverb-depth'' (5 / 10),
                  pa_filterFreq = getSlider (sliders s) ''filter-freq'' (6 / 10),
                  pa_delayDepth = getSlider (sliders s) ''delay-depth'' (3 / 10),
                  pa_delayTime = getSlider (sliders s) ''delay-time'' (25 / 100)\<rparr>\<rparr>;
          s = s\<lparr>orbitPreArpState := Some
                 \<lparr>ps_arpActive = (case arpToggle s of Some b \<Rightarrow> b | None \<Rightarrow> False),
                  ps_arpSpeed = getSlider (sliders s) ''arp-speed'' 180\<rparr>\<rparr>;
          warmthFreq = calcWarmthFreq (sliders s)
      in if audioInitialized s
         then audioCall (DelayTimeSet (5 / 10)) (audioCall (DelayFeedback (65 / 100))
                (audioCall (ReverbDryWet (9 / 10)) (audioCall (FilterFreq warmthFreq) s)))
         else s)"

definition restoreOrbitAudio :: "orbit_state \<Rightarrow> orbit_state" where
  "restoreOrbitAudio s =
     (case preOrbitAudio s of
        None \<Rightarrow> s
      | Some pa \<Rightarrow>
          let s = audioCall (SetReverbDepth (pa_reverbDepth pa)) s;
              s = audioCall (SetFilterFreq (pa_filterFreq pa)) s;
              s = audioCall (SetDelayDepth (pa_delayDepth pa)) s;
              s = audioCall (SetDelayTime (pa_delayTime pa)) s;
              s = s\<lparr>preOrbitAudio := None\<rparr>
          in case orbitPreArpState s of
               None \<Rightarrow> s
             | Some ps \<Rightarrow>
                 let s = audioCall (ToggleArpeggio (ps_arpActive ps)) s;
                     s = audioCall (SetArpSpeed (ps_arpSpeed ps)) s;
                     s = (if arpToggle s \<noteq> None then s\<lparr>arpToggle := Some (ps_arpActive ps)\<rparr>
                          else s)
                 in s\<lparr>orbitPreArpState := None\<rparr>)"

definition orbitRandomizeArp :: "orbit_state \<Rightarrow> orbit_state" where
  "orbitRandomizeArp s =
     (let (r, s) = random s;
          arpOn = (r > 5 / 10);
          s = audioCall (ToggleArpeggio arpOn) s
      in if arpOn
         then (let (r2, s) = random s in audioCall (ArpSpeedField (80 + real_of_int \<lfloor>r2 * 320\<rfloor>)) s)
         else s)"

subsection \<open>Ghost notes\<close>

text \<open>
  The four functions that use \<open>pow\<close>, \<open>sin\<close> and \<open>cos\<close> are not evaluated when a run
  of the controller is computed; their values are carried along as they stand.
\<close>

definition midiToFreq :: "real \<Rightarrow> real" where
  "midiToFreq m = 440 * 2 powr ((m - 69) / 12)"

definition detuneFactor :: "real \<Rightarrow> real" where
  "detuneFactor r = 2 powr ((r * 6 - 3) / 1200)"

definition ringTarget :: "real \<times> real \<Rightarrow> nat \<Rightarrow> nat \<Rightarrow> real \<times> real" where
  "ringTarget center n i =
     (let angle = (2 * pi / real n) * real i - pi / 2
      in (fst center + cos angle * 200, snd center + sin angle * 200))"

definition sweepTotal :: "real \<Rightarrow> real" where
  "sweepTotal ph = sin ph * (35 / 100) + sin (ph * (27 / 10) + 13 / 10) * (15 / 100)"

declare midiToFreq_def [code del]
declare detuneFactor_def [code del]
declare ringTarget_def [code del]
declare sweepTotal_def [code del]

text \<open>
  \<open>_playGhostNote\<close> draws five random numbers: the pitch, the octave roll, the attack,
  the detuning of the second oscillator and the sustain. The two oscillators are one
  entry of the audio log; their release is the timer \<open>ToneRelease\<close>.
\<close>

definition playGhostNote :: "orbit_state \<Rightarrow> orbit_state" where
  "playGhostNote s =
     (if \<not> orbitMode s \<or> \<not> audioInitialized s then s
      else case ghostNoteChordData s of
        None \<Rightarrow> s
      | Some cd \<Rightarrow>
          let octaveShift = (if currentKey s \<ge> 7 then -12 else 0);
              baseOctave = 60 + octaveShift;
              transposed = map (\<lambda>iv. baseOctave + currentKey s + cd_root cd + iv) (cd_intervals cd);
              freqs = map (\<lambda>m. midiToFreq (real_of_int m)) transposed;
              (r1, s) = random s;
              k = \<lfloor>r1 * real (length freqs)\<rfloor>;
              freq = (if 0 \<le> k \<and> k < int (length freqs) then Some (freqs ! nat k) else None);
              (octRoll, s) = random s;
              freq = map_option (\<lambda>f. f * ghostOctaveFactor (sliders s) octRoll) freq;
              amp = calcGhostAmp (sliders s);
              (r3, s) = random s;
              attackTime = 8 / 10 + r3 * (12 / 10);
              (r4, s) = random s;
              detune = detuneFactor r4;
              s = audioCall (GhostTone freq amp attackTime detune) s;
              (r5, s) = random s;
              sustainTime = 1500 + r5 * 3000;
              (h, s) = setTimeout ToneRelease sustainTime s
          in s)"

definition clearGhostNotes :: "orbit_state \<Rightarrow> orbit_state" where
  "clearGhostNotes s = (foldl (\<lambda>s h. clearTimeout h s) s (ghostNoteTimers s))\<lparr>ghostNoteTimers := []\<rparr>"

fun scheduleLoop :: "nat \<Rightarrow> real \<Rightarrow> orbit_state \<Rightarrow> orbit_state" where
  "scheduleLoop 0 silenceDurationMs s = s"
| "scheduleLoop (Suc n) silenceDurationMs s =
     (let (r, s) = random s;
          delay = 500 + r * max 500 (silenceDurationMs - 1500);
          (h, s) = setTimeout GhostNote delay s;
          s = s\<lparr>ghostNoteTimers := ghostNoteTimers s @ [h]\<rparr>
      in scheduleLoop n silenceDurationMs s)"

text \<open>\<open>_calcGhostCount\<close> draws a random number only when the slider is at 5 or more.\<close>

definition scheduleGhostNotes :: "real \<Rightarrow> orbit_state \<Rightarrow> orbit_state" where
  "scheduleGhostNotes silenceDurationMs s =
     (let s = clearGhostNotes s;
          (count, s) = (if orbitGhosts (sliders s) < 5 then (calcGhostCount (sliders s) 0, s)
                        else (let (r, s) = random s in (calcGhostCount (sliders s) r, s)))
      in scheduleLoop (nat count) silenceDurationMs s)"

subsection \<open>Node arrangement\<close>

text \<open>
  \<open>_orbitArrangeConnected\<close> in three parts: the centre and the visible set, the ring of
  the connected nodes (\<open>connectedNodes.forEach\<close>), and the last loop, which sends every
  node outside the visible set to the centre.
\<close>

definition placeOnRing :: "real \<times> real \<Rightarrow> nat list \<Rightarrow> orbit_state \<Rightarrow> orbit_state" where
  "placeOnRing center connectedNodes s =
     foldl (\<lambda>s (n, i). updateNode n (\<lambda>nd. nd\<lparr>nd_orbitStart := Some center,
                nd_orbitTarget := Some (ringTarget center (length connectedNodes) i)\<rparr>) s)
       s (zip connectedNodes [0 ..< length connectedNodes])"

definition parkHidden :: "real \<times> real \<Rightarrow> orbit_state \<Rightarrow> orbit_state" where
  "parkHidden center s =
     s\<lparr>nodes := map (\<lambda>n. if nd_name n \<notin> orbitVisibleNodes s
                           then n\<lparr>nd_orbitStart := Some (nd_x n, nd_y n),
                                  nd_orbitTarget := Some center\<rparr>
                           else n) (nodes s)\<rparr>"

definition orbitArrangeConnected :: "nat \<Rightarrow> orbit_state \<Rightarrow> orbit_state" where
  "orbitArrangeConnected c s =
     (let center = getCanvasCenter s;
          t5 = orbitTop5 s c;
          s = s\<lparr>orbitVisibleNodes := set (nd_name (nodes s ! c) # List.map_filter t_next t5)\<rparr>;
          s = s\<lparr>orbitCenterNode := Some c\<rparr>;
          s = updateNode c (\<lambda>n. n\<lparr>nd_orbitStart := Some (nd_x n, nd_y n),
                                     nd_orbitTarget := Some center\<rparr>) s;
          connectedNodes = List.map_filter (\<lambda>t. findNode s (t_next t)) t5;
          s = placeOnRing center connectedNodes s
      in parkHidden center s)"

text \<open>\<open>if (_orbitTimer)\<close> fails for \<open>null\<close> and for the number 0.\<close>

definition orbitClearTimers :: "orbit_state \<Rightarrow> orbit_state" where
  "orbitClearTimers s =
     (let s = (case orbitTimer s of
                 Some h \<Rightarrow> if h \<noteq> 0 then (clearTimeout h s)\<lparr>orbitTimer := None\<rparr> else s
               | None \<Rightarrow> s)
      in clearGhostNotes s)"

subsection \<open>Lifecycle\<close>

text \<open>
  \<open>_orbitBeginCentering(node)\<close>. The caller \<open>_orbitAutoSelectNext\<close> can pass \<open>undefined\<close>
  (\<open>None\<close>); then \<open>_orbitArrangeConnected\<close> throws on \<open>centerNode.name\<close> and the four
  assignments before it are all that happens.
\<close>

definition orbitBeginCentering :: "nat option \<Rightarrow> orbit_state \<Rightarrow> orbit_state" where
  "orbitBeginCentering node s =
     (let s = s\<lparr>orbitNextNode := node, orbitPhase := Centering,
                 orbitTransitionStart := millis s, orbitIsSounding := False\<rparr>
      in case node of
           None \<Rightarrow> s
         | Some i \<Rightarrow>
             let s = orbitArrangeConnected i s;
                 (r, s) = random s;
                 s = s\<lparr>orbitBurstCount := calcBurstCount (sliders s) r\<rparr>
             in s\<lparr>ghostNoteChordData := Some (nd_data (nodes s ! i))\<rparr>)"

definition orbitOnNodeClick :: "nat \<Rightarrow> orbit_state \<Rightarrow> orbit_state" where
  "orbitOnNodeClick i s =
     (if \<not> orbitMode s \<or> orbitAutoTriggered s then s
      else orbitBeginCentering (Some i) (orbitClearTimers s))"

text \<open>
  \<open>handleNodePress\<close> of the sketch: the chord starts, the node and its top successors
  glow (\<open>map(rank, 0, 4, 1.0, 0.3)\<close> is 1 - 0.175 rank), and in orbit mode the press is
  passed on to \<open>orbitOnNodeClick\<close>.
\<close>

definition glowTargets :: "transition list \<Rightarrow> orbit_state \<Rightarrow> orbit_state" where
  "glowTargets t5 s =
     foldl (\<lambda>s (tr, rank).
         case findNode s (t_next tr) of
           None \<Rightarrow> s
         | Some target \<Rightarrow>
             updateNode target (\<lambda>n. n\<lparr>nd_receivedGlow := 200 * (1 - (175 / 1000) * real rank),
                                        nd_receivedRank := rank + 1\<rparr>) s)
       s (zip t5 [0 ..< length t5])"

definition handleNodePress :: "nat \<Rightarrow> orbit_state \<Rightarrow> orbit_state" where
  "handleNodePress i s =
     (let s = s\<lparr>activeNode := Some i, lastPlayedNode := Some i\<rparr>;
          s = audioCall (StartChord (nd_data (nodes s ! i))) s;
          s = updateNode i (\<lambda>n. n\<lparr>nd_glow := 100\<rparr>) s;
          s = glowTargets (orbitTop5 s i) s
      in if orbitMode s then orbitOnNodeClick i s else s)"

definition orbitPlayBurst :: "orbit_state \<Rightarrow> orbit_state" where
  "orbitPlayBurst s =
     (case orbitNextNode s of
        None \<Rightarrow> s
      | Some nx \<Rightarrow>
          if \<not> orbitMode s then s
          else
            let s = s\<lparr>orbitPhase := Bursting, orbitIsSounding := True\<rparr>;
                s = orbitRandomizeArp s;
                warmthFreq = calcWarmthFreq (sliders s);
                s = (if audioInitialized s then audioCall (FilterFreq warmthFreq) s else s);
                s = s\<lparr>orbitAutoTriggered := True\<rparr>;
                s = handleNodePress nx s;
                s = s\<lparr>orbitAutoTriggered := False\<rparr>;
                (r, s) = random s;
                burstMs = calcBurstMs (sliders s) r;
                s = orbitClearTimers s;
                (h, s) = setTimeout BurstEnd burstMs s
            in s\<lparr>orbitTimer := Some h\<rparr>)"

definition orbitStartSilence :: "orbit_state \<Rightarrow> orbit_state" where
  "orbitStartSilence s =
     (if \<not> orbitMode s then s
      else
        let s = s\<lparr>orbitPhase := Silence, orbitIsSounding := False\<rparr>;
            (r, s) = random s;
            silenceMs = calcSilenceMs (sliders s) r;
            s = scheduleGhostNotes silenceMs s;
            (h, s) = setTimeout SilenceEnd silenceMs s
        in s\<lparr>orbitTimer := Some h\<rparr>)"

text \<open>The roulette of \<open>_orbitAutoSelectNext\<close>: the first edge at which the roll has
  been used up, if there is one.\<close>

fun roulette :: "real \<Rightarrow> transition list \<Rightarrow> transition option" where
  "roulette roll [] = None"
| "roulette roll (t # ts) =
     (if roll - t_prob t \<le> 0 then Some t else roulette (roll - t_prob t) ts)"

definition pickNext :: "nat \<Rightarrow> orbit_state \<Rightarrow> nat option \<times> orbit_state" where
  "pickNext cur s =
     (let t5 = orbitTop5 s cur;
          (nextNode, s) =
            (if t5 \<noteq> [] then
               (let total = foldl (\<lambda>a t. a + t_prob t) 0 t5;
                    (r, s) = random s;
                    picked = (case roulette (r * total) t5 of
                                Some t \<Rightarrow> findNode s (t_next t)
                              | None \<Rightarrow> None);
                    picked = (if picked = None then findNode s (t_next (hd t5)) else picked)
                in (picked, s))
             else (None, s))
      in if nextNode = None
         then (let (r, s) = random s in (nodeAt s \<lfloor>r * real (length (nodes s))\<rfloor>, s))
         else (nextNode, s))"

definition orbitAutoSelectNext :: "nat option \<Rightarrow> orbit_state \<Rightarrow> orbit_state" where
  "orbitAutoSelectNext currentNode s =
     (case currentNode of
        None \<Rightarrow> s
      | Some cur \<Rightarrow>
          if \<not> orbitMode s then s
          else (let (nextNode, s) = pickNext cur s in orbitBeginCentering nextNode s))"

text \<open>The loop of the deactivation branch that writes the saved positions back.\<close>

definition restorePositions :: "(string \<times> real \<times> real) list \<Rightarrow> orbit_state \<Rightarrow> orbit_state" where
  "restorePositions saved s =
     foldl (\<lambda>s (name, x, y).
         case findNode s (Some name) of
           None \<Rightarrow> s
         | Some n \<Rightarrow> updateNode n (\<lambda>nd. nd\<lparr>nd_x := x, nd_y := y\<rparr>) s)
       s saved"

text \<open>\<open>activeNode || lastPlayedNode || nodes[Math.floor(Math.random() * nodes.length)]\<close>\<close>

definition pickStart :: "orbit_state \<Rightarrow> nat option \<times> orbit_state" where
  "pickStart s =
     (case activeNode s of
        Some a \<Rightarrow> (Some a, s)
      | None \<Rightarrow>
          (case lastPlayedNode s of
             Some l \<Rightarrow> (Some l, s)
           | None \<Rightarrow> (let (r, s) = random s
                       in (nodeAt s \<lfloor>r * real (length (nodes s))\<rfloor>, s))))"

definition toggleOrbit :: "orbit_state \<Rightarrow> orbit_state" where
  "toggleOrbit s =
     (let s = s\<lparr>orbitMode := \<not> orbitMode s\<rparr> in
      if orbitMode s then
        (let s = s\<lparr>orbitSavedPositions := Some (map (\<lambda>n. (nd_name n, nd_x n, nd_y n)) (nodes s))\<rparr>;
             s = applyOrbitAudio s;
             s = s\<lparr>orbitPhase := Idle, orbitBurstCount := 0, orbitIsSounding := False,
                   orbitVisibleNodes := {}, orbitCenterNode := None\<rparr>;
             (r, s) = random s;
             s = s\<lparr>filterSweepPhase := r * 100\<rparr>;
             (startNode, s) = pickStart s
         in case startNode of
              Some i \<Rightarrow> orbitBeginCentering (Some i) s
            | None \<Rightarrow> s)
      else
        (let s = s\<lparr>orbitPhase := Idle, orbitNextNode := None, orbitAutoTriggered := False,
                   orbitBurstCount := 0, orbitIsSounding := False, orbitVisibleNodes := {},
                   orbitCenterNode := None\<rparr>;
             s = orbitClearTimers s;
             s = audioCall StopChord s;
             s = (case orbitSavedPositions s of
                    None \<Rightarrow> s
                  | Some saved \<Rightarrow> (restorePositions saved s)\<lparr>orbitSavedPositions := None\<rparr>)
         in restoreOrbitAudio s))"

subsection \<open>The frame update and the timer callbacks\<close>

text \<open>The two halves of \<open>orbitUpdate\<close>: the centering animation and the filter sweep.\<close>

definition animateNodes :: "real \<Rightarrow> orbit_state \<Rightarrow> orbit_state" where
  "animateNodes ease s =
     s\<lparr>nodes := map (\<lambda>n.
          case (nd_orbitStart n, nd_orbitTarget n) of
            (Some (sx, sy), Some (tx, ty)) \<Rightarrow>
              n\<lparr>nd_x := sx + (tx - sx) * ease, nd_y := sy + (ty - sy) * ease\<rparr>
          | _ \<Rightarrow> n) (nodes s)\<rparr>"

definition filterSweep :: "orbit_state \<Rightarrow> orbit_state" where
  "filterSweep s =
     (let driftSpeed = calcDriftSpeed (sliders s);
          driftRange = calcDriftRange (sliders s);
          s = s\<lparr>filterSweepPhase := filterSweepPhase s + driftSpeed * (16 / 1000)\<rparr>;
          warmthBase = calcWarmthFreq (sliders s);
          freq = warmthBase + sweepTotal (filterSweepPhase s) * driftRange
      in audioCall (FilterFreq (max 200 (min 5000 freq))) s)"

definition orbitUpdate :: "orbit_state \<Rightarrow> orbit_state" where
  "orbitUpdate s =
     (if \<not> orbitMode s then s
      else
        let s = (if orbitPhase s = Centering \<and> orbitNextNode s \<noteq> None then
                   (let elapsed = millis s - orbitTransitionStart s;
                        t = min (elapsed / 1500) 1;
                        ease = (if t < 5 / 10 then 2 * t * t else 1 - (- 2 * t + 2)\<^sup>2 / 2);
                        s = animateNodes ease s
                    in if t \<ge> 1 then orbitPlayBurst s else s)
                 else s)
        in if audioInitialized s then filterSweep s else s)"

definition burstEnded :: "orbit_state \<Rightarrow> orbit_state" where
  "burstEnded s =
     (if \<not> orbitMode s then s
      else
        (let s = s\<lparr>orbitIsSounding := False\<rparr>;
             s = audioCall StopChord s;
             s = s\<lparr>orbitBurstCount := orbitBurstCount s - 1\<rparr>
         in if orbitBurstCount s > 0 then
              (let (r, s) = random s;
                   gapMs = calcGapMs (sliders s) r;
                   (h, s) = setTimeout GapEnd gapMs s
               in s\<lparr>orbitTimer := Some h\<rparr>)
            else orbitStartSilence s))"

definition toneReleased :: "orbit_state \<Rightarrow> orbit_state" where
  "toneReleased s = (let s = audioCall GhostFade s; (h, s) = setTimeout ToneDispose 2500 s in s)"

definition timerCallback :: "timer_kind \<Rightarrow> orbit_state \<Rightarrow> orbit_state" where
  "timerCallback kind s =
     (case kind of
        BurstEnd \<Rightarrow> burstEnded s
      | GapEnd \<Rightarrow> if \<not> orbitMode s then s else orbitPlayBurst s
      | SilenceEnd \<Rightarrow>
          if \<not> orbitMode s then s
          else orbitAutoSelectNext
                 (case orbitCenterNode s of Some c \<Rightarrow> Some c | None \<Rightarrow> orbitNextNode s) s
      | GhostNote \<Rightarrow> if orbitMode s \<and> orbitPhase s = Silence then playGhostNote s else s
      | ToneRelease \<Rightarrow> toneReleased s
      | ToneDispose \<Rightarrow> audioCall GhostStop s)"


subsection \<open>Events\<close>

text \<open>
  What can happen to the controller: the orbit button (\<open>toggleOrbit\<close>), a press on a
  node (\<open>handleNodePress\<close>, which in orbit mode calls \<open>orbitOnNodeClick\<close>), the release
  of the mouse, a frame of \<open>draw\<close>, and a pending timer that fires. Each event comes
  with the value of \<open>millis()\<close> at its time.
\<close>

datatype action = ToggleOrbit | NodePress nat | MouseReleased | Frame | TimerFires nat

definition fireTimer :: "nat \<Rightarrow> orbit_state \<Rightarrow> orbit_state" where
  "fireTimer h s =
     (case find (\<lambda>t. tm_id t = h) (timers s) of
        None \<Rightarrow> s
      | Some t \<Rightarrow> timerCallback (tm_kind t) (clearTimeout h s))"

definition step :: "orbit_state \<Rightarrow> real \<times> action \<Rightarrow> orbit_state" where
  "step s ev =
     (let s = s\<lparr>millis := fst ev\<rparr> in
      case snd ev of
        ToggleOrbit \<Rightarrow> toggleOrbit s
      | NodePress i \<Rightarrow> if i < length (nodes s) then handleNodePress i s else s
      | MouseReleased \<Rightarrow> (audioCall StopChord s)\<lparr>activeNode := None\<rparr>
      | Frame \<Rightarrow> if orbitMode s then orbitUpdate s else s
      | TimerFires h \<Rightarrow> fireTimer h s)"

definition run :: "orbit_state \<Rightarrow> (real \<times> action) list \<Rightarrow> orbit_state" where
  "run s evs = foldl step s evs"

subsection \<open>Notions used to state the properties\<close>

text \<open>
  The names of the nodes; the timers of the orbit phases and the timers of the ghost
  notes; the discipline the controller keeps: pending timers have distinct positive
  handles below the next handle, a pending phase timer is the one whose handle
  \<open>_orbitTimer\<close> holds, a pending ghost-note timer has its handle in \<open>_ghostNoteTimers\<close>,
  no timer of either kind is pending while orbit mode is off, and no phase timer is
  pending while a node is being centered.
\<close>

definition names :: "orbit_state \<Rightarrow> string list" where
  "names s = map nd_name (nodes s)"

definition isPhaseTimer :: "timer \<Rightarrow> bool" where
  "isPhaseTimer t \<longleftrightarrow> tm_kind t = BurstEnd \<or> tm_kind t = GapEnd \<or> tm_kind t = SilenceEnd"

definition isGhostTimer :: "timer \<Rightarrow> bool" where
  "isGhostTimer t \<longleftrightarrow> tm_kind t = GhostNote"

definition timersTracked :: "orbit_state \<Rightarrow> bool" where
  "timersTracked s \<longleftrightarrow>
     distinct (map tm_id (timers s))
     \<and> 0 < nextTimerId s
     \<and> list_all (\<lambda>t. 0 < tm_id t \<and> tm_id t < nextTimerId s) (timers s)
     \<and> list_all (\<lambda>t. orbitTimer s = Some (tm_id t)) (filter isPhaseTimer (timers s))
     \<and> list_all (\<lambda>t. tm_id t \<in> set (ghostNoteTimers s)) (filter isGhostTimer (timers s))"

definition noPhaseTimer :: "orbit_state \<Rightarrow> bool" where
  "noPhaseTimer s \<longleftrightarrow> filter isPhaseTimer (timers s) = []"

definition noOrbitTimer :: "orbit_state \<Rightarrow> bool" where
  "noOrbitTimer s \<longleftrightarrow> filter (\<lambda>t. isPhaseTimer t \<or> isGhostTimer t) (timers s) = []"

definition timerDiscipline :: "orbit_state \<Rightarrow> bool" where
  "timerDiscipline s \<longleftrightarrow>
     timersTracked s
     \<and> (if orbitMode s then True else noOrbitTimer s)
     \<and> (if orbitPhase s = Centering then noPhaseTimer s else True)"

text \<open>
  The set that \<open>_orbitArrangeConnected\<close> computes for the node at index \<open>c\<close>, and the
  agreement of \<open>_orbitVisibleNodes\<close> with \<open>_orbitCenterNode\<close>: empty while there is no
  center node, and the set of the center node otherwise.
\<close>

definition visibleSet :: "orbit_state \<Rightarrow> nat \<Rightarrow> string set" where
  "visibleSet s c =
     set ((names s ! c) # List.map_filter t_next (top5 (chordTransitions s) (names s) (names s ! c)))"

definition visibleInv :: "orbit_state \<Rightarrow> bool" where
  "visibleInv s \<longleftrightarrow>
     (case orbitCenterNode s of
        None \<Rightarrow> orbitVisibleNodes s = {}
      | Some c \<Rightarrow> if c < length (names s) then orbitVisibleNodes s = visibleSet s c else True)"

text \<open>The restore loop of \<open>toggleOrbit\<close> on the list of nodes alone.\<close>

definition restoreList :: "node list \<Rightarrow> (string \<times> real \<times> real) list \<Rightarrow> node list" where
  "restoreList ns saved =
     foldl (\<lambda>ns (name, x, y).
         case findNodeFrom 0 ns (Some name) of
           None \<Rightarrow> ns
         | Some n \<Rightarrow> ns[n := (ns ! n)\<lparr>nd_x := x, nd_y := y\<rparr>])
       ns saved"

subsection \<open>Sample states\<close>

text \<open>
  Three nodes on the graph of \<open>sampleRaw\<close>. \<open>sampleState\<close> is the controller before orbit
  mode was ever switched on. \<open>silenceState\<close> is a state of the silence phase: the
  timer 1 is a scheduled ghost note, the timer 2 ends the silence.
\<close>

definition sampleNodes :: "node list" where
  "sampleNodes =
     map (\<lambda>(name, x, y).
            \<lparr>nd_name = name, nd_data = \<lparr>cd_root = 0, cd_intervals = [0, 4, 7]\<rparr>,
             nd_x = x, nd_y = y, nd_glow = 0, nd_receivedGlow = 0, nd_receivedRank = 0,
             nd_orbitStart = None, nd_orbitTarget = None\<rparr>)
         [(''I'', 100, 100), (''IV'', 200, 100), (''V'', 150, 200)]"

definition sampleState :: orbit_state where
  "sampleState =
     \<lparr>nodes = sampleNodes, activeNode = None, lastPlayedNode = Some 0, orbitMode = False,
      currentKey = 0,
      chordTransitions = CHORD_TRANSITIONS (processData sampleRaw ''major'' emptyGraph),
      sliders = Map.empty, arpToggle = None, windowWidth = 1280, windowHeight = 720,
      sidebarWidth = 280, audioInitialized = False, audioLog = [], orbitPhase = Idle,
      orbitTimer = None, orbitTransitionStart = 0, orbitNextNode = None,
      orbitSavedPositions = None, preOrbitAudio = None, orbitAutoTriggered = False,
      orbitVisibleNodes = {}, orbitCenterNode = None, orbitBurstCount = 0,
      orbitPreArpState = None, ghostNoteTimers = [], ghostNoteChordData = None,
      filterSweepPhase = 0, orbitIsSounding = False, timers = [], nextTimerId = 1,
      randomStream = (\<lambda>n. 1 / 4), randomPos = 0, millis = 0\<rparr>"

definition silenceState :: orbit_state where
  "silenceState =
     sampleState\<lparr>orbitMode := True, audioInitialized := True, orbitPhase := Silence,
       orbitTimer := Some 2, ghostNoteTimers := [1],
       ghostNoteChordData := Some \<lparr>cd_root = 0, cd_intervals = [0, 4, 7]\<rparr>,
       timers := [\<lparr>tm_id = 1, tm_kind = GhostNote, tm_delay = 700\<rparr>,
                  \<lparr>tm_id = 2, tm_kind = SilenceEnd, tm_delay = 4000\<rparr>],
       nextTimerId := 3\<rparr>"

section \<open>Properties of the parameter readers\<close>

text \<open>
  C3 (amended). For a density in [0,100] and a random draw in [0,1), the burst count is
  1 + floor(density/100 * 6) + addend with addend = floor(r * 2) in {0,1}. It is at least
  1 and at most 8; it is at most 7 whenever density < 100. At density 0 it lies in {1,2}
  and at density 100 in {7,8}.
\<close>

theorem calcBurstCount_bounds:
  assumes "0 \<le> orbitDensity d" "orbitDensity d \<le> 100" "0 \<le> r" "r < 1"
  shows "calcBurstCount d r = 1 + \<lfloor>(orbitDensity d / 100) * 6\<rfloor> + \<lfloor>r * 2\<rfloor>
     \<and> \<lfloor>r * 2\<rfloor> \<in> {0, 1}
     \<and> 1 \<le> calcBurstCount d r \<and> calcBurstCount d r \<le> 8
     \<and> (orbitDensity d < 100 \<longrightarrow> calcBurstCount d r \<le> 7)
     \<and> (orbitDensity d = 0 \<longrightarrow> calcBurstCount d r \<in> {1, 2})
     \<and> (orbitDensity d = 100 \<longrightarrow> calcBurstCount d r \<in> {7, 8})"
proof -
  define dens where "dens = orbitDensity d"
  define a where "a = \<lfloor>(dens / 100) * 6\<rfloor>"
  define b where "b = \<lfloor>r * 2\<rfloor>"
  have eq: "calcBurstCount d r = 1 + a + b"
    by (simp add: calcBurstCount_def a_def b_def dens_def)
  have b0: "0 \<le> b" using assms(3) by (simp add: b_def)
  have b1: "b \<le> 1" using assms(4) by (simp add: floor_le_iff b_def)
  have a0: "0 \<le> a" using assms(1) by (simp add: a_def dens_def)
  have a6: "a \<le> 6" using assms(2) by (simp add: floor_le_iff a_def dens_def)
  have a5: "dens < 100 \<longrightarrow> a \<le> 5" by (simp add: floor_le_iff a_def)
  have az: "dens = 0 \<longrightarrow> a = 0" by (simp add: a_def)
  have ah: "dens = 100 \<longrightarrow> a = 6" by (simp add: a_def)
  have "calcBurstCount d r = 1 + a + b
     \<and> b \<in> {0, 1}
     \<and> 1 \<le> calcBurstCount d r \<and> calcBurstCount d r \<le> 8
     \<and> (dens < 100 \<longrightarrow> calcBurstCount d r \<le> 7)
     \<and> (dens = 0 \<longrightarrow> calcBurstCount d r \<in> {1, 2})
     \<and> (dens = 100 \<longrightarrow> calcBurstCount d r \<in> {7, 8})"
    unfolding eq using b0 b1 a0 a6 a5 az ah by auto
  then show ?thesis unfolding a_def b_def dens_def .
qed

theorem calcBurstCount_bounds_witness:
  "orbitDensity [''orbit-density'' \<mapsto> 50] = 50
   \<and> calcBurstCount [''orbit-density'' \<mapsto> 50] (3 / 4) = 5
   \<and> calcBurstCount [''orbit-density'' \<mapsto> 50] (3 / 4) \<le> 7"
proof -
  have d: "orbitDensity [''orbit-density'' \<mapsto> 50] = 50"
    by (simp add: orbitDensity_def getSlider_def)
  have "calcBurstCount [''orbit-density'' \<mapsto> 50] (3 / 4)
          = 1 + \<lfloor>(orbitDensity [''orbit-density'' \<mapsto> 50] / 100) * 6\<rfloor> + \<lfloor>(3 / 4 :: real) * 2\<rfloor>
        \<and> calcBurstCount [''orbit-density'' \<mapsto> 50] (3 / 4) \<le> 7"
    using calcBurstCount_bounds [of "[''orbit-density'' \<mapsto> 50]" "3 / 4"] by (simp add: d)
  then show ?thesis by (simp add: d)
qed

text \<open>
  The claim as written bounds the count by 7. At density 100 with a draw of 1/2 (addend 1)
  the code returns 8.
\<close>

theorem calcBurstCount_counterexample:
  "orbitDensity [''orbit-density'' \<mapsto> 100] = 100
   \<and> \<lfloor>(1 / 2 :: real) * 2\<rfloor> = 1
   \<and> calcBurstCount [''orbit-density'' \<mapsto> 100] (1 / 2) = 8
   \<and> \<not> calcBurstCount [''orbit-density'' \<mapsto> 100] (1 / 2) \<le> 7"
  by (simp add: calcBurstCount_def orbitDensity_def getSlider_def)




section \<open>Properties of the codec\<close>

subsection \<open>Base64\<close>






















subsection \<open>The URL-safe form\<close>






lemma replace_all_absent: "a \<notin> set (replace_all a b xs) \<or> a = b"
  by (auto simp: replace_all_def)



subsection \<open>Round trip and failure\<close>



text \<open>
  C8. \<open>deserializeFromURL\<close> never lets an exception out: for every token it returns a
  value, which is null (\<open>None\<close>) when \<open>atob\<close> rejects the base64 text, when the
  decompression (or, without pako, the UTF-8 decoding) throws, or when \<open>JSON.parse\<close>
  throws, and which is the parsed state when all three stages succeed.
\<close>

theorem deserializeFromURL_total:
  "(\<exists>r. deserializeFromURL pf encoded = Inr r)
     \<and> (atob (decoder_input pf encoded) = Inl e \<longrightarrow> deserializeFromURL pf encoded = Inr None)
     \<and> (atob (decoder_input pf encoded) = Inr bin
          \<and> (if has_pako pf then pako_inflate pf bin else utf8_decode pf bin) = Inl e
          \<longrightarrow> deserializeFromURL pf encoded = Inr None)
     \<and> (atob (decoder_input pf encoded) = Inr bin
          \<and> (if has_pako pf then pako_inflate pf bin else utf8_decode pf bin) = Inr json
          \<and> JSON_parse pf json = Inl e
          \<longrightarrow> deserializeFromURL pf encoded = Inr None)
     \<and> (atob (decoder_input pf encoded) = Inr bin
          \<and> (if has_pako pf then pako_inflate pf bin else utf8_decode pf bin) = Inr json
          \<and> JSON_parse pf json = Inr st
          \<longrightarrow> deserializeFromURL pf encoded = Inr (Some st))"
  by (auto simp: deserializeFromURL_def deserialize_body_def decoder_input_def catch_null_def
           bind_js_def Let_def split: sum.splits)

text \<open>
  The token \<open>A\<close> is padded to \<open>A===\<close>, which is not base64; the token \<open>eA\<close>
  decodes to the text \<open>x\<close>, which the sample platform's JSON does not parse. Both
  give null.
\<close>

theorem deserializeFromURL_total_witness:
  "atob (decoder_input sample_platform ''A'') = Inl Thrown
   \<and> deserializeFromURL sample_platform ''A'' = Inr None
   \<and> atob (decoder_input sample_platform ''eA'') = Inr ''x''
   \<and> JSON_parse sample_platform ''x'' = Inl Thrown
   \<and> deserializeFromURL sample_platform ''eA'' = Inr None"
proof -
  have a: "atob (decoder_input sample_platform ''A'') = Inl Thrown"
    by (simp add: decoder_input_def sample_platform_def replace_all_def pad4.simps atob_def
          is_ascii_whitespace_def drop_padding_def b64_value_def b64_alphabet_def)
  have b: "atob (decoder_input sample_platform ''eA'') = Inr ''x''"
    by (simp add: decoder_input_def sample_platform_def replace_all_def pad4.simps atob_def
          is_ascii_whitespace_def drop_padding_def b64_value_def b64_alphabet_def)
       code_simp
  have c: "JSON_parse sample_platform ''x'' = Inl Thrown"
    by (simp add: sample_platform_def)
  have i: "pako_inflate sample_platform ''x'' = Inr ''x''" "has_pako sample_platform"
    by (simp_all add: sample_platform_def)
  show ?thesis
    using deserializeFromURL_total [of sample_platform "''A''" Thrown]
          deserializeFromURL_total [of sample_platform "''eA''" Thrown "''x''" "''x''"]
          a b c i
    by simp
qed

section \<open>Properties of the graph builder\<close>

subsection \<open>The sort is a permutation\<close>










subsection \<open>Counting the candidates\<close>












subsection \<open>The graph after \<open>processData\<close>\<close>












subsection \<open>Completeness of the top successors\<close>




subsection \<open>Weights of the synthetic edges\<close>




subsection \<open>Determinism\<close>


section \<open>Properties of the orbit controller\<close>

subsection \<open>What the functions leave unchanged\<close>

lemma foldl_frame: "(\<And>s x. F (g s x) = F s) \<Longrightarrow> F (foldl g s xs) = F s"
  by (induction xs arbitrary: s) simp_all

lemma random_frame [simp]:
  "timers (snd (random s)) = timers s"
  "nextTimerId (snd (random s)) = nextTimerId s"
  "orbitTimer (snd (random s)) = orbitTimer s"
  "ghostNoteTimers (snd (random s)) = ghostNoteTimers s"
  "orbitMode (snd (random s)) = orbitMode s"
  "orbitPhase (snd (random s)) = orbitPhase s"
  "orbitSavedPositions (snd (random s)) = orbitSavedPositions s"
  "orbitVisibleNodes (snd (random s)) = orbitVisibleNodes s"
  "orbitCenterNode (snd (random s)) = orbitCenterNode s"
  "chordTransitions (snd (random s)) = chordTransitions s"
  "orbitAutoTriggered (snd (random s)) = orbitAutoTriggered s"
  "orbitNextNode (snd (random s)) = orbitNextNode s"
  "sliders (snd (random s)) = sliders s"
  "audioInitialized (snd (random s)) = audioInitialized s"
  "nodes (snd (random s)) = nodes s"
  by (simp_all add: random_def)

lemma audioCall_frame [simp]:
  "timers (audioCall c s) = timers s"
  "nextTimerId (audioCall c s) = nextTimerId s"
  "orbitTimer (audioCall c s) = orbitTimer s"
  "ghostNoteTimers (audioCall c s) = ghostNoteTimers s"
  "orbitMode (audioCall c s) = orbitMode s"
  "orbitPhase (audioCall c s) = orbitPhase s"
  "orbitSavedPositions (audioCall c s) = orbitSavedPositions s"
  "orbitVisibleNodes (audioCall c s) = orbitVisibleNodes s"
  "orbitCenterNode (audioCall c s) = orbitCenterNode s"
  "chordTransitions (audioCall c s) = chordTransitions s"
  "orbitAutoTriggered (audioCall c s) = orbitAutoTriggered s"
  "orbitNextNode (audioCall c s) = orbitNextNode s"
  "sliders (audioCall c s) = sliders s"
  "audioInitialized (audioCall c s) = audioInitialized s"
  "nodes (audioCall c s) = nodes s"
  by (simp_all add: audioCall_def)

lemma updateNode_frame [simp]:
  "timers (updateNode i f s) = timers s"
  "nextTimerId (updateNode i f s) = nextTimerId s"
  "orbitTimer (updateNode i f s) = orbitTimer s"
  "ghostNoteTimers (updateNode i f s) = ghostNoteTimers s"
  "orbitMode (updateNode i f s) = orbitMode s"
  "orbitPhase (updateNode i f s) = orbitPhase s"
  "orbitSavedPositions (updateNode i f s) = orbitSavedPositions s"
  "orbitVisibleNodes (updateNode i f s) = orbitVisibleNodes s"
  "orbitCenterNode (updateNode i f s) = orbitCenterNode s"
  "chordTransitions (updateNode i f s) = chordTransitions s"
  "orbitAutoTriggered (updateNode i f s) = orbitAutoTriggered s"
  "orbitNextNode (updateNode i f s) = orbitNextNode s"
  "sliders (updateNode i f s) = sliders s"
  "audioInitialized (updateNode i f s) = audioInitialized s"
  by (simp_all add: updateNode_def)

lemma setTimeout_frame [simp]:
  "orbitTimer (snd (setTimeout k d s)) = orbitTimer s"
  "ghostNoteTimers (snd (setTimeout k d s)) = ghostNoteTimers s"
  "orbitMode (snd (setTimeout k d s)) = orbitMode s"
  "orbitPhase (snd (setTimeout k d s)) = orbitPhase s"
  "orbitSavedPositions (snd (setTimeout k d s)) = orbitSavedPositions s"
  "orbitVisibleNodes (snd (setTimeout k d s)) = orbitVisibleNodes s"
  "orbitCenterNode (snd (setTimeout k d s)) = orbitCenterNode s"
  "chordTransitions (snd (setTimeout k d s)) = chordTransitions s"
  "orbitAutoTriggered (snd (setTimeout k d s)) = orbitAutoTriggered s"
  "orbitNextNode (snd (setTimeout k d s)) = orbitNextNode s"
  "sliders (snd (setTimeout k d s)) = sliders s"
  "audioInitialized (snd (setTimeout k d s)) = audioInitialized s"
  "nodes (snd (setTimeout k d s)) = nodes s"
  by (simp_all add: setTimeout_def)

lemma clearTimeout_frame [simp]:
  "nextTimerId (clearTimeout h s) = nextTimerId s"
  "orbitTimer (clearTimeout h s) = orbitTimer s"
  "ghostNoteTimers (clearTimeout h s) = ghostNoteTimers s"
  "orbitMode (clearTimeout h s) = orbitMode s"
  "orbitPhase (clearTimeout h s) = orbitPhase s"
  "orbitSavedPositions (clearTimeout h s) = orbitSavedPositions s"
  "orbitVisibleNodes (clearTimeout h s) = orbitVisibleNodes s"
  "orbitCenterNode (clearTimeout h s) = orbitCenterNode s"
  "chordTransitions (clearTimeout h s) = chordTransitions s"
  "orbitAutoTriggered (clearTimeout h s) = orbitAutoTriggered s"
  "orbitNextNode (clearTimeout h s) = orbitNextNode s"
  "sliders (clearTimeout h s) = sliders s"
  "audioInitialized (clearTimeout h s) = audioInitialized s"
  "nodes (clearTimeout h s) = nodes s"
  by (simp_all add: clearTimeout_def)

lemma setTimeout_timers [simp]:
  "fst (setTimeout k d s) = nextTimerId s"
  "timers (snd (setTimeout k d s))
     = timers s @ [\<lparr>tm_id = nextTimerId s, tm_kind = k, tm_delay = d\<rparr>]"
  "nextTimerId (snd (setTimeout k d s)) = Suc (nextTimerId s)"
  by (simp_all add: setTimeout_def)

lemma clearTimeout_timers [simp]:
  "timers (clearTimeout h s) = filter (\<lambda>t. tm_id t \<noteq> h) (timers s)"
  by (simp add: clearTimeout_def)

lemma updateNode_nodes [simp]:
  "nodes (updateNode i f s) = (nodes s)[i := f (nodes s ! i)]"
  by (simp add: updateNode_def)

lemma scheduleLoop_keeps:
  assumes "\<And>s. F (snd (random s)) = F s"
      and "\<And>k d s. F (snd (setTimeout k d s)) = F s"
      and "\<And>s g. F (s\<lparr>ghostNoteTimers := g\<rparr>) = F s"
  shows "F (scheduleLoop n d s) = F s"
proof (induction n arbitrary: s)
  case 0
  show ?case by simp
next
  case (Suc n)
  show ?case by (simp add: Let_def split_def Suc.IH assms)
qed

lemma applyOrbitAudio_frame [simp]:
  "timers (applyOrbitAudio s) = timers s"
  "nextTimerId (applyOrbitAudio s) = nextTimerId s"
  "orbitTimer (applyOrbitAudio s) = orbitTimer s"
  "ghostNoteTimers (applyOrbitAudio s) = ghostNoteTimers s"
  "orbitMode (applyOrbitAudio s) = orbitMode s"
  "orbitPhase (applyOrbitAudio s) = orbitPhase s"
  "orbitSavedPositions (applyOrbitAudio s) = orbitSavedPositions s"
  "orbitVisibleNodes (applyOrbitAudio s) = orbitVisibleNodes s"
  "orbitCenterNode (applyOrbitAudio s) = orbitCenterNode s"
  "chordTransitions (applyOrbitAudio s) = chordTransitions s"
  "orbitAutoTriggered (applyOrbitAudio s) = orbitAutoTriggered s"
  "orbitNextNode (applyOrbitAudio s) = orbitNextNode s"
  "sliders (applyOrbitAudio s) = sliders s"
  "audioInitialized (applyOrbitAudio s) = audioInitialized s"
  "nodes (applyOrbitAudio s) = nodes s"
  by (simp_all add: applyOrbitAudio_def Let_def)

lemma restoreOrbitAudio_frame [simp]:
  "timers (restoreOrbitAudio s) = timers s"
  "nextTimerId (restoreOrbitAudio s) = nextTimerId s"
  "orbitTimer (restoreOrbitAudio s) = orbitTimer s"
  "ghostNoteTimers (restoreOrbitAudio s) = ghostNoteTimers s"
  "orbitMode (restoreOrbitAudio s) = orbitMode s"
  "orbitPhase (restoreOrbitAudio s) = orbitPhase s"
  "orbitSavedPositions (restoreOrbitAudio s) = orbitSavedPositions s"
  "orbitVisibleNodes (restoreOrbitAudio s) = orbitVisibleNodes s"
  "orbitCenterNode (restoreOrbitAudio s) = orbitCenterNode s"
  "chordTransitions (restoreOrbitAudio s) = chordTransitions s"
  "orbitAutoTriggered (restoreOrbitAudio s) = orbitAutoTriggered s"
  "orbitNextNode (restoreOrbitAudio s) = orbitNextNode s"
  "sliders (restoreOrbitAudio s) = sliders s"
  "audioInitialized (restoreOrbitAudio s) = audioInitialized s"
  "nodes (restoreOrbitAudio s) = nodes s"
  by (simp_all add: restoreOrbitAudio_def Let_def split: option.splits)

lemma orbitRandomizeArp_frame [simp]:
  "timers (orbitRandomizeArp s) = timers s"
  "nextTimerId (orbitRandomizeArp s) = nextTimerId s"
  "orbitTimer (orbitRandomizeArp s) = orbitTimer s"
  "ghostNoteTimers (orbitRandomizeArp s) = ghostNoteTimers s"
  "orbitMode (orbitRandomizeArp s) = orbitMode s"
  "orbitPhase (orbitRandomizeArp s) = orbitPhase s"
  "orbitSavedPositions (orbitRandomizeArp s) = orbitSavedPositions s"
  "orbitVisibleNodes (orbitRandomizeArp s) = orbitVisibleNodes s"
  "orbitCenterNode (orbitRandomizeArp s) = orbitCenterNode s"
  "chordTransitions (orbitRandomizeArp s) = chordTransitions s"
  "orbitAutoTriggered (orbitRandomizeArp s) = orbitAutoTriggered s"
  "orbitNextNode (orbitRandomizeArp s) = orbitNextNode s"
  "sliders (orbitRandomizeArp s) = sliders s"
  "audioInitialized (orbitRandomizeArp s) = audioInitialized s"
  "nodes (orbitRandomizeArp s) = nodes s"
  by (simp_all add: orbitRandomizeArp_def Let_def split_def)

lemma playGhostNote_frame [simp]:
  "orbitTimer (playGhostNote s) = orbitTimer s"
  "ghostNoteTimers (playGhostNote s) = ghostNoteTimers s"
  "orbitMode (playGhostNote s) = orbitMode s"
  "orbitPhase (playGhostNote s) = orbitPhase s"
  "orbitSavedPositions (playGhostNote s) = orbitSavedPositions s"
  "orbitVisibleNodes (playGhostNote s) = orbitVisibleNodes s"
  "orbitCenterNode (playGhostNote s) = orbitCenterNode s"
  "chordTransitions (playGhostNote s) = chordTransitions s"
  "orbitAutoTriggered (playGhostNote s) = orbitAutoTriggered s"
  "orbitNextNode (playGhostNote s) = orbitNextNode s"
  "sliders (playGhostNote s) = sliders s"
  "audioInitialized (playGhostNote s) = audioInitialized s"
  "nodes (playGhostNote s) = nodes s"
  by (simp_all add: playGhostNote_def Let_def split_def split: option.splits)

lemma clearTimeouts_frame [simp]:
  "nextTimerId (foldl (\<lambda>s h. clearTimeout h s) s hs) = nextTimerId s"
  "orbitTimer (foldl (\<lambda>s h. clearTimeout h s) s hs) = orbitTimer s"
  "ghostNoteTimers (foldl (\<lambda>s h. clearTimeout h s) s hs) = ghostNoteTimers s"
  "orbitMode (foldl (\<lambda>s h. clearTimeout h s) s hs) = orbitMode s"
  "orbitPhase (foldl (\<lambda>s h. clearTimeout h s) s hs) = orbitPhase s"
  "orbitSavedPositions (foldl (\<lambda>s h. clearTimeout h s) s hs) = orbitSavedPositions s"
  "orbitVisibleNodes (foldl (\<lambda>s h. clearTimeout h s) s hs) = orbitVisibleNodes s"
  "orbitCenterNode (foldl (\<lambda>s h. clearTimeout h s) s hs) = orbitCenterNode s"
  "chordTransitions (foldl (\<lambda>s h. clearTimeout h s) s hs) = chordTransitions s"
  "orbitAutoTriggered (foldl (\<lambda>s h. clearTimeout h s) s hs) = orbitAutoTriggered s"
  "orbitNextNode (foldl (\<lambda>s h. clearTimeout h s) s hs) = orbitNextNode s"
  "sliders (foldl (\<lambda>s h. clearTimeout h s) s hs) = sliders s"
  "audioInitialized (foldl (\<lambda>s h. clearTimeout h s) s hs) = audioInitialized s"
  "nodes (foldl (\<lambda>s h. clearTimeout h s) s hs) = nodes s"
  by (rule foldl_frame, simp)+

lemma clearGhostNotes_frame [simp]:
  "nextTimerId (clearGhostNotes s) = nextTimerId s"
  "orbitTimer (clearGhostNotes s) = orbitTimer s"
  "orbitMode (clearGhostNotes s) = orbitMode s"
  "orbitPhase (clearGhostNotes s) = orbitPhase s"
  "orbitSavedPositions (clearGhostNotes s) = orbitSavedPositions s"
  "orbitVisibleNodes (clearGhostNotes s) = orbitVisibleNodes s"
  "orbitCenterNode (clearGhostNotes s) = orbitCenterNode s"
  "chordTransitions (clearGhostNotes s) = chordTransitions s"
  "orbitAutoTriggered (clearGhostNotes s) = orbitAutoTriggered s"
  "orbitNextNode (clearGhostNotes s) = orbitNextNode s"
  "sliders (clearGhostNotes s) = sliders s"
  "audioInitialized (clearGhostNotes s) = audioInitialized s"
  "nodes (clearGhostNotes s) = nodes s"
  by (simp_all add: clearGhostNotes_def)

lemma orbitClearTimers_frame [simp]:
  "nextTimerId (orbitClearTimers s) = nextTimerId s"
  "orbitMode (orbitClearTimers s) = orbitMode s"
  "orbitPhase (orbitClearTimers s) = orbitPhase s"
  "orbitSavedPositions (orbitClearTimers s) = orbitSavedPositions s"
  "orbitVisibleNodes (orbitClearTimers s) = orbitVisibleNodes s"
  "orbitCenterNode (orbitClearTimers s) = orbitCenterNode s"
  "chordTransitions (orbitClearTimers s) = chordTransitions s"
  "orbitAutoTriggered (orbitClearTimers s) = orbitAutoTriggered s"
  "orbitNextNode (orbitClearTimers s) = orbitNextNode s"
  "sliders (orbitClearTimers s) = sliders s"
  "audioInitialized (orbitClearTimers s) = audioInitialized s"
  "nodes (orbitClearTimers s) = nodes s"
  by (simp_all add: orbitClearTimers_def split: option.splits)

lemma scheduleLoop_frame [simp]:
  "orbitTimer (scheduleLoop n d s) = orbitTimer s"
  "orbitMode (scheduleLoop n d s) = orbitMode s"
  "orbitPhase (scheduleLoop n d s) = orbitPhase s"
  "orbitSavedPositions (scheduleLoop n d s) = orbitSavedPositions s"
  "orbitVisibleNodes (scheduleLoop n d s) = orbitVisibleNodes s"
  "orbitCenterNode (scheduleLoop n d s) = orbitCenterNode s"
  "chordTransitions (scheduleLoop n d s) = chordTransitions s"
  "orbitAutoTriggered (scheduleLoop n d s) = orbitAutoTriggered s"
  "orbitNextNode (scheduleLoop n d s) = orbitNextNode s"
  "sliders (scheduleLoop n d s) = sliders s"
  "audioInitialized (scheduleLoop n d s) = audioInitialized s"
  "nodes (scheduleLoop n d s) = nodes s"
  by (rule scheduleLoop_keeps; simp)+

lemma scheduleGhostNotes_frame [simp]:
  "orbitTimer (scheduleGhostNotes d s) = orbitTimer s"
  "orbitMode (scheduleGhostNotes d s) = orbitMode s"
  "orbitPhase (scheduleGhostNotes d s) = orbitPhase s"
  "orbitSavedPositions (scheduleGhostNotes d s) = orbitSavedPositions s"
  "orbitVisibleNodes (scheduleGhostNotes d s) = orbitVisibleNodes s"
  "orbitCenterNode (scheduleGhostNotes d s) = orbitCenterNode s"
  "chordTransitions (scheduleGhostNotes d s) = chordTransitions s"
  "orbitAutoTriggered (scheduleGhostNotes d s) = orbitAutoTriggered s"
  "orbitNextNode (scheduleGhostNotes d s) = orbitNextNode s"
  "sliders (scheduleGhostNotes d s) = sliders s"
  "audioInitialized (scheduleGhostNotes d s) = audioInitialized s"
  "nodes (scheduleGhostNotes d s) = nodes s"
  by (simp_all add: scheduleGhostNotes_def Let_def split_def)

lemma placeOnRing_frame [simp]:
  "timers (placeOnRing center cn s) = timers s"
  "nextTimerId (placeOnRing center cn s) = nextTimerId s"
  "orbitTimer (placeOnRing center cn s) = orbitTimer s"
  "ghostNoteTimers (placeOnRing center cn s) = ghostNoteTimers s"
  "orbitMode (placeOnRing center cn s) = orbitMode s"
  "orbitPhase (placeOnRing center cn s) = orbitPhase s"
  "orbitSavedPositions (placeOnRing center cn s) = orbitSavedPositions s"
  "orbitVisibleNodes (placeOnRing center cn s) = orbitVisibleNodes s"
  "orbitCenterNode (placeOnRing center cn s) = orbitCenterNode s"
  "chordTransitions (placeOnRing center cn s) = chordTransitions s"
  "orbitAutoTriggered (placeOnRing center cn s) = orbitAutoTriggered s"
  "orbitNextNode (placeOnRing center cn s) = orbitNextNode s"
  "sliders (placeOnRing center cn s) = sliders s"
  "audioInitialized (placeOnRing center cn s) = audioInitialized s"
  by (simp_all add: placeOnRing_def foldl_frame split_def)

lemma parkHidden_frame [simp]:
  "timers (parkHidden center s) = timers s"
  "nextTimerId (parkHidden center s) = nextTimerId s"
  "orbitTimer (parkHidden center s) = orbitTimer s"
  "ghostNoteTimers (parkHidden center s) = ghostNoteTimers s"
  "orbitMode (parkHidden center s) = orbitMode s"
  "orbitPhase (parkHidden center s) = orbitPhase s"
  "orbitSavedPositions (parkHidden center s) = orbitSavedPositions s"
  "orbitVisibleNodes (parkHidden center s) = orbitVisibleNodes s"
  "orbitCenterNode (parkHidden center s) = orbitCenterNode s"
  "chordTransitions (parkHidden center s) = chordTransitions s"
  "orbitAutoTriggered (parkHidden center s) = orbitAutoTriggered s"
  "orbitNextNode (parkHidden center s) = orbitNextNode s"
  "sliders (parkHidden center s) = sliders s"
  "audioInitialized (parkHidden center s) = audioInitialized s"
  by (simp_all add: parkHidden_def)

lemma orbitArrangeConnected_frame [simp]:
  "timers (orbitArrangeConnected c s) = timers s"
  "nextTimerId (orbitArrangeConnected c s) = nextTimerId s"
  "orbitTimer (orbitArrangeConnected c s) = orbitTimer s"
  "ghostNoteTimers (orbitArrangeConnected c s) = ghostNoteTimers s"
  "orbitMode (orbitArrangeConnected c s) = orbitMode s"
  "orbitPhase (orbitArrangeConnected c s) = orbitPhase s"
  "orbitSavedPositions (orbitArrangeConnected c s) = orbitSavedPositions s"
  "chordTransitions (orbitArrangeConnected c s) = chordTransitions s"
  "orbitAutoTriggered (orbitArrangeConnected c s) = orbitAutoTriggered s"
  "orbitNextNode (orbitArrangeConnected c s) = orbitNextNode s"
  "sliders (orbitArrangeConnected c s) = sliders s"
  "audioInitialized (orbitArrangeConnected c s) = audioInitialized s"
  by (simp_all add: orbitArrangeConnected_def Let_def)

lemma orbitBeginCentering_frame [simp]:
  "timers (orbitBeginCentering node s) = timers s"
  "nextTimerId (orbitBeginCentering node s) = nextTimerId s"
  "orbitTimer (orbitBeginCentering node s) = orbitTimer s"
  "ghostNoteTimers (orbitBeginCentering node s) = ghostNoteTimers s"
  "orbitMode (orbitBeginCentering node s) = orbitMode s"
  "orbitSavedPositions (orbitBeginCentering node s) = orbitSavedPositions s"
  "chordTransitions (orbitBeginCentering node s) = chordTransitions s"
  "orbitAutoTriggered (orbitBeginCentering node s) = orbitAutoTriggered s"
  "sliders (orbitBeginCentering node s) = sliders s"
  "audioInitialized (orbitBeginCentering node s) = audioInitialized s"
  by (simp_all add: orbitBeginCentering_def Let_def split_def split: option.splits)

lemma glowTargets_frame [simp]:
  "timers (glowTargets t5 s) = timers s"
  "nextTimerId (glowTargets t5 s) = nextTimerId s"
  "orbitTimer (glowTargets t5 s) = orbitTimer s"
  "ghostNoteTimers (glowTargets t5 s) = ghostNoteTimers s"
  "orbitMode (glowTargets t5 s) = orbitMode s"
  "orbitPhase (glowTargets t5 s) = orbitPhase s"
  "orbitSavedPositions (glowTargets t5 s) = orbitSavedPositions s"
  "orbitVisibleNodes (glowTargets t5 s) = orbitVisibleNodes s"
  "orbitCenterNode (glowTargets t5 s) = orbitCenterNode s"
  "chordTransitions (glowTargets t5 s) = chordTransitions s"
  "orbitAutoTriggered (glowTargets t5 s) = orbitAutoTriggered s"
  "orbitNextNode (glowTargets t5 s) = orbitNextNode s"
  "sliders (glowTargets t5 s) = sliders s"
  "audioInitialized (glowTargets t5 s) = audioInitialized s"
  by (simp_all add: glowTargets_def foldl_frame split_def split: option.splits)

lemma restorePositions_frame [simp]:
  "timers (restorePositions saved s) = timers s"
  "nextTimerId (restorePositions saved s) = nextTimerId s"
  "orbitTimer (restorePositions saved s) = orbitTimer s"
  "ghostNoteTimers (restorePositions saved s) = ghostNoteTimers s"
  "orbitMode (restorePositions saved s) = orbitMode s"
  "orbitPhase (restorePositions saved s) = orbitPhase s"
  "orbitSavedPositions (restorePositions saved s) = orbitSavedPositions s"
  "orbitVisibleNodes (restorePositions saved s) = orbitVisibleNodes s"
  "orbitCenterNode (restorePositions saved s) = orbitCenterNode s"
  "chordTransitions (restorePositions saved s) = chordTransitions s"
  "orbitAutoTriggered (restorePositions saved s) = orbitAutoTriggered s"
  "orbitNextNode (restorePositions saved s) = orbitNextNode s"
  "sliders (restorePositions saved s) = sliders s"
  "audioInitialized (restorePositions saved s) = audioInitialized s"
  by (simp_all add: restorePositions_def foldl_frame split_def split: option.splits)

lemma animateNodes_frame [simp]:
  "timers (animateNodes ease s) = timers s"
  "nextTimerId (animateNodes ease s) = nextTimerId s"
  "orbitTimer (animateNodes ease s) = orbitTimer s"
  "ghostNoteTimers (animateNodes ease s) = ghostNoteTimers s"
  "orbitMode (animateNodes ease s) = orbitMode s"
  "orbitPhase (animateNodes ease s) = orbitPhase s"
  "orbitSavedPositions (animateNodes ease s) = orbitSavedPositions s"
  "orbitVisibleNodes (animateNodes ease s) = orbitVisibleNodes s"
  "orbitCenterNode (animateNodes ease s) = orbitCenterNode s"
  "chordTransitions (animateNodes ease s) = chordTransitions s"
  "orbitAutoTriggered (animateNodes ease s) = orbitAutoTriggered s"
  "orbitNextNode (animateNodes ease s) = orbitNextNode s"
  "sliders (animateNodes ease s) = sliders s"
  "audioInitialized (animateNodes ease s) = audioInitialized s"
  by (simp_all add: animateNodes_def)

lemma filterSweep_frame [simp]:
  "timers (filterSweep s) = timers s"
  "nextTimerId (filterSweep s) = nextTimerId s"
  "orbitTimer (filterSweep s) = orbitTimer s"
  "ghostNoteTimers (filterSweep s) = ghostNoteTimers s"
  "orbitMode (filterSweep s) = orbitMode s"
  "orbitPhase (filterSweep s) = orbitPhase s"
  "orbitSavedPositions (filterSweep s) = orbitSavedPositions s"
  "orbitVisibleNodes (filterSweep s) = orbitVisibleNodes s"
  "orbitCenterNode (filterSweep s) = orbitCenterNode s"
  "chordTransitions (filterSweep s) = chordTransitions s"
  "orbitAutoTriggered (filterSweep s) = orbitAutoTriggered s"
  "orbitNextNode (filterSweep s) = orbitNextNode s"
  "sliders (filterSweep s) = sliders s"
  "audioInitialized (filterSweep s) = audioInitialized s"
  "nodes (filterSweep s) = nodes s"
  by (simp_all add: filterSweep_def Let_def)

lemma pickNext_frame [simp]:
  "timers (snd (pickNext cur s)) = timers s"
  "nextTimerId (snd (pickNext cur s)) = nextTimerId s"
  "orbitTimer (snd (pickNext cur s)) = orbitTimer s"
  "ghostNoteTimers (snd (pickNext cur s)) = ghostNoteTimers s"
  "orbitMode (snd (pickNext cur s)) = orbitMode s"
  "orbitPhase (snd (pickNext cur s)) = orbitPhase s"
  "orbitSavedPositions (snd (pickNext cur s)) = orbitSavedPositions s"
  "orbitVisibleNodes (snd (pickNext cur s)) = orbitVisibleNodes s"
  "orbitCenterNode (snd (pickNext cur s)) = orbitCenterNode s"
  "chordTransitions (snd (pickNext cur s)) = chordTransitions s"
  "orbitAutoTriggered (snd (pickNext cur s)) = orbitAutoTriggered s"
  "orbitNextNode (snd (pickNext cur s)) = orbitNextNode s"
  "sliders (snd (pickNext cur s)) = sliders s"
  "audioInitialized (snd (pickNext cur s)) = audioInitialized s"
  "nodes (snd (pickNext cur s)) = nodes s"
  by (simp_all add: pickNext_def Let_def split_def)

lemma pickStart_frame [simp]:
  "timers (snd (pickStart s)) = timers s"
  "nextTimerId (snd (pickStart s)) = nextTimerId s"
  "orbitTimer (snd (pickStart s)) = orbitTimer s"
  "ghostNoteTimers (snd (pickStart s)) = ghostNoteTimers s"
  "orbitMode (snd (pickStart s)) = orbitMode s"
  "orbitPhase (snd (pickStart s)) = orbitPhase s"
  "orbitSavedPositions (snd (pickStart s)) = orbitSavedPositions s"
  "orbitVisibleNodes (snd (pickStart s)) = orbitVisibleNodes s"
  "orbitCenterNode (snd (pickStart s)) = orbitCenterNode s"
  "chordTransitions (snd (pickStart s)) = chordTransitions s"
  "orbitAutoTriggered (snd (pickStart s)) = orbitAutoTriggered s"
  "orbitNextNode (snd (pickStart s)) = orbitNextNode s"
  "sliders (snd (pickStart s)) = sliders s"
  "audioInitialized (snd (pickStart s)) = audioInitialized s"
  "nodes (snd (pickStart s)) = nodes s"
  by (simp_all add: pickStart_def Let_def split_def split: option.splits)

lemma toneReleased_frame [simp]:
  "orbitTimer (toneReleased s) = orbitTimer s"
  "ghostNoteTimers (toneReleased s) = ghostNoteTimers s"
  "orbitMode (toneReleased s) = orbitMode s"
  "orbitPhase (toneReleased s) = orbitPhase s"
  "orbitSavedPositions (toneReleased s) = orbitSavedPositions s"
  "orbitVisibleNodes (toneReleased s) = orbitVisibleNodes s"
  "orbitCenterNode (toneReleased s) = orbitCenterNode s"
  "chordTransitions (toneReleased s) = chordTransitions s"
  "orbitAutoTriggered (toneReleased s) = orbitAutoTriggered s"
  "orbitNextNode (toneReleased s) = orbitNextNode s"
  "sliders (toneReleased s) = sliders s"
  "audioInitialized (toneReleased s) = audioInitialized s"
  "nodes (toneReleased s) = nodes s"
  by (simp_all add: toneReleased_def Let_def split_def)

lemma orbitOnNodeClick_frame [simp]:
  "orbitMode (orbitOnNodeClick i s) = orbitMode s"
  "orbitSavedPositions (orbitOnNodeClick i s) = orbitSavedPositions s"
  "chordTransitions (orbitOnNodeClick i s) = chordTransitions s"
  "sliders (orbitOnNodeClick i s) = sliders s"
  "audioInitialized (orbitOnNodeClick i s) = audioInitialized s"
  by (simp_all add: orbitOnNodeClick_def)

lemma handleNodePress_frame [simp]:
  "orbitMode (handleNodePress i s) = orbitMode s"
  "orbitSavedPositions (handleNodePress i s) = orbitSavedPositions s"
  "chordTransitions (handleNodePress i s) = chordTransitions s"
  "sliders (handleNodePress i s) = sliders s"
  "audioInitialized (handleNodePress i s) = audioInitialized s"
  by (simp_all add: handleNodePress_def Let_def)

lemma orbitPlayBurst_frame [simp]:
  "orbitMode (orbitPlayBurst s) = orbitMode s"
  "orbitSavedPositions (orbitPlayBurst s) = orbitSavedPositions s"
  "chordTransitions (orbitPlayBurst s) = chordTransitions s"
  "sliders (orbitPlayBurst s) = sliders s"
  "audioInitialized (orbitPlayBurst s) = audioInitialized s"
  by (simp_all add: orbitPlayBurst_def Let_def split_def split: option.splits)

lemma orbitStartSilence_frame [simp]:
  "orbitMode (orbitStartSilence s) = orbitMode s"
  "orbitSavedPositions (orbitStartSilence s) = orbitSavedPositions s"
  "chordTransitions (orbitStartSilence s) = chordTransitions s"
  "sliders (orbitStartSilence s) = sliders s"
  "audioInitialized (orbitStartSilence s) = audioInitialized s"
  by (simp_all add: orbitStartSilence_def Let_def split_def)

lemma orbitAutoSelectNext_frame [simp]:
  "orbitMode (orbitAutoSelectNext cur s) = orbitMode s"
  "orbitSavedPositions (orbitAutoSelectNext cur s) = orbitSavedPositions s"
  "chordTransitions (orbitAutoSelectNext cur s) = chordTransitions s"
  "sliders (orbitAutoSelectNext cur s) = sliders s"
  "audioInitialized (orbitAutoSelectNext cur s) = audioInitialized s"
  by (simp_all add: orbitAutoSelectNext_def Let_def split_def split: option.splits)

lemma burstEnded_frame [simp]:
  "orbitMode (burstEnded s) = orbitMode s"
  "orbitSavedPositions (burstEnded s) = orbitSavedPositions s"
  "chordTransitions (burstEnded s) = chordTransitions s"
  "sliders (burstEnded s) = sliders s"
  "audioInitialized (burstEnded s) = audioInitialized s"
  by (simp_all add: burstEnded_def Let_def split_def)

lemma timerCallback_frame [simp]:
  "orbitMode (timerCallback k s) = orbitMode s"
  "orbitSavedPositions (timerCallback k s) = orbitSavedPositions s"
  "chordTransitions (timerCallback k s) = chordTransitions s"
  "sliders (timerCallback k s) = sliders s"
  "audioInitialized (timerCallback k s) = audioInitialized s"
  by (simp_all add: timerCallback_def split: timer_kind.splits)

lemma orbitUpdate_frame [simp]:
  "orbitMode (orbitUpdate s) = orbitMode s"
  "orbitSavedPositions (orbitUpdate s) = orbitSavedPositions s"
  "chordTransitions (orbitUpdate s) = chordTransitions s"
  "sliders (orbitUpdate s) = sliders s"
  "audioInitialized (orbitUpdate s) = audioInitialized s"
  by (simp_all add: orbitUpdate_def Let_def)

lemma fireTimer_frame [simp]:
  "orbitMode (fireTimer h s) = orbitMode s"
  "orbitSavedPositions (fireTimer h s) = orbitSavedPositions s"
  "chordTransitions (fireTimer h s) = chordTransitions s"
  "sliders (fireTimer h s) = sliders s"
  "audioInitialized (fireTimer h s) = audioInitialized s"
  by (simp_all add: fireTimer_def split: option.splits)

text \<open>The names of the nodes never change.\<close>

lemma names_update:
  assumes "\<And>n. nd_name (f n) = nd_name n"
  shows "map nd_name (ns[i := f (ns ! i)]) = map nd_name ns"
proof (cases "i < length ns")
  case True
  then show ?thesis by (simp add: map_update assms list_update_same_conv)
next
  case False
  then have "length ns \<le> i" by simp
  then show ?thesis by (simp add: list_update_beyond)
qed

lemma names_updateNode:
  "(\<And>n. nd_name (f n) = nd_name n) \<Longrightarrow> names (updateNode i f s) = names s"
  by (simp add: names_def names_update)

lemma names_nodes: "nodes s' = nodes s \<Longrightarrow> names s' = names s"
  by (simp add: names_def)


lemma names_neutral [simp]:
  "names (snd (random s)) = names s"
  "names (audioCall c s) = names s"
  "names (snd (setTimeout k d s)) = names s"
  "names (clearTimeout h s) = names s"
  "names (applyOrbitAudio s) = names s"
  "names (restoreOrbitAudio s) = names s"
  "names (orbitRandomizeArp s) = names s"
  "names (playGhostNote s) = names s"
  "names (clearGhostNotes s) = names s"
  "names (orbitClearTimers s) = names s"
  "names (scheduleLoop n d s) = names s"
  "names (scheduleGhostNotes d s) = names s"
  "names (filterSweep s) = names s"
  "names (snd (pickNext cur s)) = names s"
  "names (snd (pickStart s)) = names s"
  "names (toneReleased s) = names s"
  by (simp_all add: names_def)

lemma names_placeOnRing [simp]: "names (placeOnRing center cn s) = names s"
  unfolding placeOnRing_def by (rule foldl_frame) (simp add: split_def names_updateNode)

lemma names_parkHidden [simp]: "names (parkHidden center s) = names s"
  by (simp add: parkHidden_def names_def comp_def if_distrib cong: if_cong)

lemma names_glowTargets [simp]: "names (glowTargets t5 s) = names s"
  unfolding glowTargets_def
  by (rule foldl_frame) (simp add: split_def names_updateNode split: option.splits)

lemma names_restorePositions [simp]: "names (restorePositions saved s) = names s"
  unfolding restorePositions_def
  by (rule foldl_frame) (simp add: split_def names_updateNode split: option.splits)

lemma names_animateNodes [simp]: "names (animateNodes ease s) = names s"
proof -
  have "\<And>n. nd_name (case (nd_orbitStart n, nd_orbitTarget n) of
            (Some (sx, sy), Some (tx, ty)) \<Rightarrow>
              n\<lparr>nd_x := sx + (tx - sx) * ease, nd_y := sy + (ty - sy) * ease\<rparr>
          | _ \<Rightarrow> n) = nd_name n"
    by (simp split: option.splits prod.splits)
  then have "\<forall>n\<in>set (nodes s). nd_name (case (nd_orbitStart n, nd_orbitTarget n) of
            (Some (sx, sy), Some (tx, ty)) \<Rightarrow>
              n\<lparr>nd_x := sx + (tx - sx) * ease, nd_y := sy + (ty - sy) * ease\<rparr>
          | _ \<Rightarrow> n) = nd_name n"
    by blast
  then show ?thesis by (simp add: animateNodes_def names_def comp_def)
qed

lemma names_field [simp]:
  "names (s\<lparr>orbitVisibleNodes := v\<rparr>) = names s"
  "names (s\<lparr>orbitCenterNode := c\<rparr>) = names s"
  "names (s\<lparr>orbitNextNode := nn\<rparr>) = names s"
  "names (s\<lparr>orbitPhase := p\<rparr>) = names s"
  "names (s\<lparr>orbitTransitionStart := t\<rparr>) = names s"
  "names (s\<lparr>orbitIsSounding := b\<rparr>) = names s"
  "names (s\<lparr>orbitBurstCount := k\<rparr>) = names s"
  "names (s\<lparr>ghostNoteChordData := g\<rparr>) = names s"
  "names (s\<lparr>orbitAutoTriggered := b\<rparr>) = names s"
  "names (s\<lparr>orbitTimer := ot\<rparr>) = names s"
  "names (s\<lparr>activeNode := a\<rparr>) = names s"
  "names (s\<lparr>lastPlayedNode := l\<rparr>) = names s"
  "names (s\<lparr>orbitMode := m\<rparr>) = names s"
  "names (s\<lparr>orbitSavedPositions := sp\<rparr>) = names s"
  "names (s\<lparr>filterSweepPhase := fp\<rparr>) = names s"
  "names (s\<lparr>millis := ms\<rparr>) = names s"
  by (simp_all add: names_def)

lemma names_orbitArrangeConnected [simp]: "names (orbitArrangeConnected c s) = names s"
  by (simp add: orbitArrangeConnected_def Let_def names_updateNode)

lemma names_orbitBeginCentering [simp]: "names (orbitBeginCentering node s) = names s"
  by (simp add: orbitBeginCentering_def Let_def split_def split: option.splits)

lemma names_orbitOnNodeClick [simp]: "names (orbitOnNodeClick i s) = names s"
  by (simp add: orbitOnNodeClick_def)

lemma names_handleNodePress [simp]: "names (handleNodePress i s) = names s"
  by (simp add: handleNodePress_def Let_def names_updateNode)

lemma names_orbitPlayBurst [simp]: "names (orbitPlayBurst s) = names s"
  by (simp add: orbitPlayBurst_def Let_def split_def split: option.splits)

lemma names_orbitStartSilence [simp]: "names (orbitStartSilence s) = names s"
  by (simp add: orbitStartSilence_def Let_def split_def)

lemma names_orbitAutoSelectNext [simp]: "names (orbitAutoSelectNext cur s) = names s"
  by (simp add: orbitAutoSelectNext_def Let_def split_def split: option.splits)

lemma names_burstEnded [simp]: "names (burstEnded s) = names s"
  by (simp add: burstEnded_def Let_def split_def)

lemma names_timerCallback [simp]: "names (timerCallback k s) = names s"
  by (simp add: timerCallback_def split: timer_kind.splits)

lemma names_orbitUpdate [simp]: "names (orbitUpdate s) = names s"
  by (simp add: orbitUpdate_def Let_def)

lemma names_fireTimer [simp]: "names (fireTimer h s) = names s"
  by (simp add: fireTimer_def split: option.splits)

lemma names_toggleOrbit [simp]: "names (toggleOrbit s) = names s"
  by (simp add: toggleOrbit_def Let_def split_def split: option.splits)

lemma names_step [simp]: "names (step s ev) = names s"
  by (simp add: step_def Let_def split: action.splits)

lemma names_run [simp]: "names (run s evs) = names s"
  unfolding run_def by (rule foldl_frame) simp

subsection \<open>The visible set\<close>

lemma visibleInv_cong:
  "orbitCenterNode s' = orbitCenterNode s \<Longrightarrow> orbitVisibleNodes s' = orbitVisibleNodes s \<Longrightarrow>
   names s' = names s \<Longrightarrow> chordTransitions s' = chordTransitions s \<Longrightarrow>
   visibleInv s' = visibleInv s"
  by (simp add: visibleInv_def visibleSet_def split: option.splits)


lemma orbitArrangeConnected_visible [simp]:
  "orbitVisibleNodes (orbitArrangeConnected c s)
     = set (nd_name (nodes s ! c) # List.map_filter t_next (orbitTop5 s c))"
  "orbitCenterNode (orbitArrangeConnected c s) = Some c"
  by (simp_all add: orbitArrangeConnected_def Let_def parkHidden_def)


lemma visibleInv_neutral [simp]:
  "visibleInv (snd (random s)) = visibleInv s"
  "visibleInv (audioCall c s) = visibleInv s"
  "visibleInv (snd (setTimeout k d s)) = visibleInv s"
  "visibleInv (clearTimeout h s) = visibleInv s"
  "visibleInv (applyOrbitAudio s) = visibleInv s"
  "visibleInv (restoreOrbitAudio s) = visibleInv s"
  "visibleInv (orbitRandomizeArp s) = visibleInv s"
  "visibleInv (playGhostNote s) = visibleInv s"
  "visibleInv (clearGhostNotes s) = visibleInv s"
  "visibleInv (orbitClearTimers s) = visibleInv s"
  "visibleInv (scheduleLoop n d s) = visibleInv s"
  "visibleInv (scheduleGhostNotes d s) = visibleInv s"
  "visibleInv (filterSweep s) = visibleInv s"
  "visibleInv (snd (pickNext cur s)) = visibleInv s"
  "visibleInv (snd (pickStart s)) = visibleInv s"
  "visibleInv (toneReleased s) = visibleInv s"
  "visibleInv (glowTargets t5 s) = visibleInv s"
  "visibleInv (restorePositions saved s) = visibleInv s"
  "visibleInv (animateNodes ease s) = visibleInv s"
  by (rule visibleInv_cong; simp)+


lemma visibleInv_field [simp]:
  "visibleInv (s\<lparr>orbitNextNode := nn\<rparr>) = visibleInv s"
  "visibleInv (s\<lparr>orbitPhase := p\<rparr>) = visibleInv s"
  "visibleInv (s\<lparr>orbitTransitionStart := t\<rparr>) = visibleInv s"
  "visibleInv (s\<lparr>orbitIsSounding := b\<rparr>) = visibleInv s"
  "visibleInv (s\<lparr>orbitBurstCount := k\<rparr>) = visibleInv s"
  "visibleInv (s\<lparr>ghostNoteChordData := g\<rparr>) = visibleInv s"
  "visibleInv (s\<lparr>orbitAutoTriggered := b\<rparr>) = visibleInv s"
  "visibleInv (s\<lparr>orbitTimer := ot\<rparr>) = visibleInv s"
  "visibleInv (s\<lparr>activeNode := a\<rparr>) = visibleInv s"
  "visibleInv (s\<lparr>lastPlayedNode := l\<rparr>) = visibleInv s"
  "visibleInv (s\<lparr>orbitMode := m\<rparr>) = visibleInv s"
  "visibleInv (s\<lparr>orbitSavedPositions := sp\<rparr>) = visibleInv s"
  "visibleInv (s\<lparr>filterSweepPhase := fp\<rparr>) = visibleInv s"
  "visibleInv (s\<lparr>millis := ms\<rparr>) = visibleInv s"
  by (rule visibleInv_cong; simp)+











lemma visibleInv_reset:
  "visibleInv (s\<lparr>orbitVisibleNodes := {}, orbitCenterNode := None\<rparr>)"
  by (simp add: visibleInv_def)








subsection \<open>Restoring the positions\<close>

lemma restorePositions_nodes: "nodes (restorePositions saved s) = restoreList (nodes s) saved"
  unfolding restorePositions_def restoreList_def findNode_def
proof (induction saved arbitrary: s)
  case Nil
  show ?case by simp
next
  case (Cons e saved)
  obtain name x y where e: "e = (name, x, y)" by (cases e) auto
  show ?case
    by (simp add: e Cons.IH split: option.splits)
qed

lemma findNodeFrom_shift:
  "findNodeFrom k ns name = map_option (\<lambda>i. i + k) (findNodeFrom 0 ns name)"
proof (induction ns arbitrary: k)
  case Nil
  show ?case by simp
next
  case (Cons n ns)
  show ?case
    using Cons.IH[of "Suc k"] Cons.IH[of "Suc 0"]
    by (simp add: option.map_comp comp_def)
qed

lemma findNodeFrom_None: "name \<notin> set (map (\<lambda>n. Some (nd_name n)) ns) \<Longrightarrow> findNodeFrom k ns name = None"
  by (induction ns arbitrary: k) auto

lemma restore_one:
  assumes "distinct (map nd_name ns)"
  shows "(case findNodeFrom 0 ns (Some nm) of
            None \<Rightarrow> ns
          | Some i \<Rightarrow> ns[i := (ns ! i)\<lparr>nd_x := x, nd_y := y\<rparr>])
         = map (\<lambda>n. if nd_name n = nm then n\<lparr>nd_x := x, nd_y := y\<rparr> else n) ns"
  using assms
proof (induction ns)
  case Nil
  show ?case by simp
next
  case (Cons n ns)
  show ?case
  proof (cases "nd_name n = nm")
    case True
    then have "nm \<notin> set (map nd_name ns)" using Cons.prems by auto
    then have "map (\<lambda>n. if nd_name n = nm then n\<lparr>nd_x := x, nd_y := y\<rparr> else n) ns = ns"
      by (induction ns) auto
    then show ?thesis using True by simp
  next
    case False
    have sh: "findNodeFrom (Suc 0) ns (Some nm) = map_option Suc (findNodeFrom 0 ns (Some nm))"
      using findNodeFrom_shift[of "Suc 0" ns "Some nm"] by simp
    have ih: "(case findNodeFrom 0 ns (Some nm) of
            None \<Rightarrow> ns
          | Some i \<Rightarrow> ns[i := (ns ! i)\<lparr>nd_x := x, nd_y := y\<rparr>])
         = map (\<lambda>n. if nd_name n = nm then n\<lparr>nd_x := x, nd_y := y\<rparr> else n) ns"
      using Cons.prems by (intro Cons.IH) simp
    show ?thesis
    proof (cases "findNodeFrom 0 ns (Some nm)")
      case None
      then show ?thesis using False sh ih by simp
    next
      case (Some i)
      then show ?thesis using False sh ih by simp
    qed
  qed
qed

lemma restoreList_map_of:
  assumes "distinct (map nd_name ns)" "distinct (map fst saved)"
  shows "restoreList ns saved
           = map (\<lambda>n. case map_of saved (nd_name n) of
                         None \<Rightarrow> n
                       | Some (x, y) \<Rightarrow> n\<lparr>nd_x := x, nd_y := y\<rparr>) ns"
  using assms
proof (induction saved arbitrary: ns)
  case Nil
  show ?case by (simp add: restoreList_def)
next
  case (Cons e saved)
  obtain nm x y where e: "e = (nm, x, y)" by (cases e) auto
  let ?ns1 = "map (\<lambda>n. if nd_name n = nm then n\<lparr>nd_x := x, nd_y := y\<rparr> else n) ns"
  have names1: "map nd_name ?ns1 = map nd_name ns" by (induction ns) auto
  have step: "restoreList ns (e # saved) = restoreList ?ns1 saved"
    using restore_one[OF Cons.prems(1), where nm = nm and x = x and y = y]
    by (simp add: restoreList_def e)
  have ih: "restoreList ?ns1 saved
           = map (\<lambda>n. case map_of saved (nd_name n) of
                         None \<Rightarrow> n
                       | Some (x, y) \<Rightarrow> n\<lparr>nd_x := x, nd_y := y\<rparr>) ?ns1"
  proof (rule Cons.IH)
    show "distinct (map nd_name ?ns1)" using Cons.prems(1) by (simp only: names1)
    show "distinct (map fst saved)" using Cons.prems(2) by simp
  qed
  have nin: "map_of saved nm = None"
    using Cons.prems(2) by (simp add: e map_of_eq_None_iff)
  have "map (\<lambda>n. case map_of saved (nd_name n) of
                         None \<Rightarrow> n
                       | Some (x, y) \<Rightarrow> n\<lparr>nd_x := x, nd_y := y\<rparr>) ?ns1
        = map (\<lambda>n. case map_of (e # saved) (nd_name n) of
                         None \<Rightarrow> n
                       | Some (x, y) \<Rightarrow> n\<lparr>nd_x := x, nd_y := y\<rparr>) ns"
    by (simp add: e nin)
  then show ?case using step ih by simp
qed

lemma map_of_saved:
  assumes "distinct (map nd_name orig)" "i < length orig"
  shows "map_of (map (\<lambda>n. (nd_name n, nd_x n, nd_y n)) orig) (nd_name (orig ! i))
           = Some (nd_x (orig ! i), nd_y (orig ! i))"
proof -
  have d: "distinct (map fst (map (\<lambda>n. (nd_name n, nd_x n, nd_y n)) orig))"
    using assms(1) by (simp add: comp_def)
  have "(nd_name (orig ! i), nd_x (orig ! i), nd_y (orig ! i))
          \<in> set (map (\<lambda>n. (nd_name n, nd_x n, nd_y n)) orig)"
  proof -
    have "orig ! i \<in> set orig" using assms(2) by simp
    then show ?thesis by (simp add: image_iff) blast
  qed
  then show ?thesis using d by (simp only: map_of_eq_Some_iff)
qed

lemma restoreList_saved:
  assumes d: "distinct (map nd_name orig)" and n: "map nd_name ns = map nd_name orig"
      and i: "i < length orig"
  shows "restoreList ns (map (\<lambda>n. (nd_name n, nd_x n, nd_y n)) orig) ! i
           = (ns ! i)\<lparr>nd_x := nd_x (orig ! i), nd_y := nd_y (orig ! i)\<rparr>"
proof -
  have len: "length ns = length orig" using n by (metis length_map)
  have nm: "nd_name (ns ! i) = nd_name (orig ! i)"
    using n i len by (metis nth_map)
  have d1: "distinct (map nd_name ns)" using d n by simp
  have d2: "distinct (map fst (map (\<lambda>n. (nd_name n, nd_x n, nd_y n)) orig))"
    using d by (simp add: comp_def)
  show ?thesis
    using i len by (simp add: restoreList_map_of[OF d1 d2] nm map_of_saved[OF d i])
qed

lemma names_xy: "map nd_name (ns[i := (ns ! i)\<lparr>nd_x := a, nd_y := b\<rparr>]) = map nd_name ns"
  using names_update[of "\<lambda>nd. nd\<lparr>nd_x := a, nd_y := b\<rparr>" ns i] by simp

lemma restoreList_length: "length (restoreList ns saved) = length ns"
proof -
  have "map nd_name (restoreList ns saved) = map nd_name ns"
    unfolding restoreList_def
    by (rule foldl_frame) (simp add: split_def names_xy split: option.splits)
  then show ?thesis by (metis length_map)
qed

lemma toggleOrbit_mode [simp]: "orbitMode (toggleOrbit s) = (\<not> orbitMode s)"
  by (simp add: toggleOrbit_def Let_def split_def split: option.splits)

lemma toggleOrbit_on_saved:
  "\<not> orbitMode s \<Longrightarrow>
     orbitSavedPositions (toggleOrbit s) = Some (map (\<lambda>n. (nd_name n, nd_x n, nd_y n)) (nodes s))"
  by (simp add: toggleOrbit_def Let_def split_def split: option.splits)

lemma toggleOrbit_off_nodes:
  "orbitMode s \<Longrightarrow> orbitSavedPositions s = Some saved \<Longrightarrow>
     nodes (toggleOrbit s) = restoreList (nodes s) saved"
  by (simp add: toggleOrbit_def Let_def restorePositions_nodes)

lemma step_keeps:
  assumes "snd ev \<noteq> ToggleOrbit"
  shows "orbitMode (step s ev) = orbitMode s"
    and "orbitSavedPositions (step s ev) = orbitSavedPositions s"
  using assms by (simp_all add: step_def Let_def split: action.splits)

lemma run_keeps:
  assumes "\<forall>e\<in>set evs. snd e \<noteq> ToggleOrbit"
  shows "orbitMode (run s evs) = orbitMode s \<and> orbitSavedPositions (run s evs) = orbitSavedPositions s"
  using assms unfolding run_def
proof (induction evs arbitrary: s)
  case Nil
  show ?case by simp
next
  case (Cons e evs)
  then show ?case by (simp add: step_keeps)
qed

text \<open>
  C9. Orbit mode is off and the names of the nodes are distinct. Orbit mode is switched
  on (the positions are saved), any events other than the orbit button follow (node
  presses, frames of the animation, timers), and orbit mode is switched off. Then orbit
  mode is off, the nodes are as many as before, every node has the \<open>x\<close> and \<open>y\<close> it had
  before the activation, and the deactivation changed nothing else of the node: the node
  after it is the node before it with the two coordinates replaced.
\<close>

theorem deactivation_restores_positions:
  assumes off: "\<not> orbitMode s0"
      and dist: "distinct (map nd_name (nodes s0))"
      and evs: "\<forall>e\<in>set evs. snd e \<noteq> ToggleOrbit"
      and i: "i < length (nodes s0)"
  shows "\<not> orbitMode (step (run (step s0 (t1, ToggleOrbit)) evs) (t2, ToggleOrbit))
       \<and> length (nodes (step (run (step s0 (t1, ToggleOrbit)) evs) (t2, ToggleOrbit)))
            = length (nodes s0)
       \<and> nd_x (nodes (step (run (step s0 (t1, ToggleOrbit)) evs) (t2, ToggleOrbit)) ! i)
            = nd_x (nodes s0 ! i)
       \<and> nd_y (nodes (step (run (step s0 (t1, ToggleOrbit)) evs) (t2, ToggleOrbit)) ! i)
            = nd_y (nodes s0 ! i)
       \<and> nodes (step (run (step s0 (t1, ToggleOrbit)) evs) (t2, ToggleOrbit)) ! i
            = (nodes (run (step s0 (t1, ToggleOrbit)) evs) ! i)
                \<lparr>nd_x := nd_x (nodes s0 ! i), nd_y := nd_y (nodes s0 ! i)\<rparr>"
proof -
  define orig where "orig = nodes s0"
  define s1 where "s1 = step s0 (t1, ToggleOrbit)"
  define s2 where "s2 = run s1 evs"
  define s2' where "s2' = s2\<lparr>millis := t2\<rparr>"
  define s3 where "s3 = step s2 (t2, ToggleOrbit)"
  have s1: "s1 = toggleOrbit (s0\<lparr>millis := t1\<rparr>)" by (simp add: s1_def step_def)
  have s3: "s3 = toggleOrbit s2'" by (simp add: s3_def s2'_def step_def)
  have m1: "orbitMode s1" using off by (simp add: s1)
  have sv1: "orbitSavedPositions s1 = Some (map (\<lambda>n. (nd_name n, nd_x n, nd_y n)) orig)"
    using off by (simp add: s1 toggleOrbit_on_saved orig_def)
  have k: "orbitMode s2 = orbitMode s1 \<and> orbitSavedPositions s2 = orbitSavedPositions s1"
    unfolding s2_def using evs by (rule run_keeps)
  have m2: "orbitMode s2'" using k m1 by (simp add: s2'_def)
  have sv2: "orbitSavedPositions s2' = Some (map (\<lambda>n. (nd_name n, nd_x n, nd_y n)) orig)"
    using k sv1 by (simp add: s2'_def)
  have "names s2 = names s0" by (simp add: s2_def s1_def)
  then have nm2: "map nd_name (nodes s2') = map nd_name orig"
    by (simp add: names_def s2'_def orig_def)
  have n2: "nodes s2' = nodes s2" by (simp add: s2'_def)
  have n3: "nodes s3 = restoreList (nodes s2') (map (\<lambda>n. (nd_name n, nd_x n, nd_y n)) orig)"
    unfolding s3 using m2 sv2 by (rule toggleOrbit_off_nodes)
  have d: "distinct (map nd_name orig)" using dist by (simp add: orig_def)
  have io: "i < length orig" using i by (simp add: orig_def)
  have at: "nodes s3 ! i = (nodes s2 ! i)\<lparr>nd_x := nd_x (orig ! i), nd_y := nd_y (orig ! i)\<rparr>"
    unfolding n3 using restoreList_saved[OF d nm2 io] by (simp add: n2)
  have len: "length (nodes s3) = length orig"
    unfolding n3 using nm2 by (simp add: restoreList_length) (metis length_map)
  have m3: "\<not> orbitMode s3" using m2 by (simp add: s3)
  have "\<not> orbitMode s3 \<and> length (nodes s3) = length orig
       \<and> nd_x (nodes s3 ! i) = nd_x (orig ! i) \<and> nd_y (nodes s3 ! i) = nd_y (orig ! i)
       \<and> nodes s3 ! i = (nodes s2 ! i)\<lparr>nd_x := nd_x (orig ! i), nd_y := nd_y (orig ! i)\<rparr>"
    using m3 len at by simp
  then show ?thesis unfolding s3_def s2_def s1_def orig_def .
qed

subsection \<open>The timer discipline\<close>

lemma timersTracked_iff:
  "timersTracked s \<longleftrightarrow>
     distinct (map tm_id (timers s))
     \<and> 0 < nextTimerId s
     \<and> (\<forall>t\<in>set (timers s). 0 < tm_id t \<and> tm_id t < nextTimerId s)
     \<and> (\<forall>t\<in>set (timers s). isPhaseTimer t \<longrightarrow> orbitTimer s = Some (tm_id t))
     \<and> (\<forall>t\<in>set (timers s). isGhostTimer t \<longrightarrow> tm_id t \<in> set (ghostNoteTimers s))"
  by (auto simp: timersTracked_def list_all_iff)

lemma timerDiscipline_iff:
  "timerDiscipline s \<longleftrightarrow>
     timersTracked s \<and> (\<not> orbitMode s \<longrightarrow> noOrbitTimer s)
     \<and> (orbitPhase s = Centering \<longrightarrow> noPhaseTimer s)"
  by (simp add: timerDiscipline_def)

lemma noPhaseTimer_iff: "noPhaseTimer s \<longleftrightarrow> (\<forall>t\<in>set (timers s). \<not> isPhaseTimer t)"
  by (simp add: noPhaseTimer_def filter_empty_conv)

lemma noOrbitTimer_iff:
  "noOrbitTimer s \<longleftrightarrow> (\<forall>t\<in>set (timers s). \<not> isPhaseTimer t \<and> \<not> isGhostTimer t)"
  by (simp add: noOrbitTimer_def filter_empty_conv)

lemma noOrbit_noPhase: "noOrbitTimer s \<Longrightarrow> noPhaseTimer s"
  by (simp add: noOrbitTimer_iff noPhaseTimer_iff)

lemma tracked_cong:
  "timers s' = timers s \<Longrightarrow> nextTimerId s' = nextTimerId s \<Longrightarrow> orbitTimer s' = orbitTimer s \<Longrightarrow>
   ghostNoteTimers s' = ghostNoteTimers s \<Longrightarrow> timersTracked s' = timersTracked s"
  by (simp add: timersTracked_def)

lemma noPhase_cong: "timers s' = timers s \<Longrightarrow> noPhaseTimer s' = noPhaseTimer s"
  by (simp add: noPhaseTimer_def)

lemma noOrbit_cong: "timers s' = timers s \<Longrightarrow> noOrbitTimer s' = noOrbitTimer s"
  by (simp add: noOrbitTimer_def)

lemma discipline_cong:
  "timers s' = timers s \<Longrightarrow> nextTimerId s' = nextTimerId s \<Longrightarrow> orbitTimer s' = orbitTimer s \<Longrightarrow>
   ghostNoteTimers s' = ghostNoteTimers s \<Longrightarrow> orbitMode s' = orbitMode s \<Longrightarrow>
   orbitPhase s' = orbitPhase s \<Longrightarrow> timerDiscipline s' = timerDiscipline s"
  by (simp add: timerDiscipline_def timersTracked_def noOrbitTimer_def noPhaseTimer_def)

text \<open>Removing timers.\<close>

lemma clearTimeouts_timers:
  "timers (foldl (\<lambda>s h. clearTimeout h s) s hs) = filter (\<lambda>t. tm_id t \<notin> set hs) (timers s)"
proof (induction hs arbitrary: s)
  case Nil
  show ?case by simp
next
  case (Cons h hs)
  have "timers (foldl (\<lambda>s h. clearTimeout h s) (clearTimeout h s) hs)
          = filter (\<lambda>t. tm_id t \<notin> set hs) (timers (clearTimeout h s))"
    by (rule Cons.IH)
  also have "\<dots> = filter (\<lambda>t. tm_id t \<notin> set (h # hs)) (timers s)"
    by (simp add: clearTimeout_def conj_commute)
  finally show ?case by simp
qed

lemma clearTimeouts_keeps:
  "nextTimerId (foldl (\<lambda>s h. clearTimeout h s) s hs) = nextTimerId s"
  "orbitTimer (foldl (\<lambda>s h. clearTimeout h s) s hs) = orbitTimer s"
  by (induction hs arbitrary: s) (simp_all add: clearTimeout_def)

lemma clearGhostNotes_effect:
  "timers (clearGhostNotes s) = filter (\<lambda>t. tm_id t \<notin> set (ghostNoteTimers s)) (timers s)"
  "nextTimerId (clearGhostNotes s) = nextTimerId s"
  "orbitTimer (clearGhostNotes s) = orbitTimer s"
  "ghostNoteTimers (clearGhostNotes s) = []"
  by (simp_all add: clearGhostNotes_def clearTimeouts_timers clearTimeouts_keeps)

lemma orbitClearTimers_effect:
  "timers (orbitClearTimers s) =
     filter (\<lambda>t. tm_id t \<notin> set (ghostNoteTimers s)
                 \<and> (orbitTimer s = Some (tm_id t) \<longrightarrow> tm_id t = 0)) (timers s)"
  "ghostNoteTimers (orbitClearTimers s) = []"
  "orbitTimer (orbitClearTimers s) = None \<or> orbitTimer (orbitClearTimers s) = Some 0"
proof -
  show "timers (orbitClearTimers s) =
     filter (\<lambda>t. tm_id t \<notin> set (ghostNoteTimers s)
                 \<and> (orbitTimer s = Some (tm_id t) \<longrightarrow> tm_id t = 0)) (timers s)"
  proof (cases "orbitTimer s")
    case None
    then show ?thesis by (simp add: orbitClearTimers_def clearGhostNotes_effect)
  next
    case (Some h)
    show ?thesis
    proof (cases "h = 0")
      case True
      have "orbitClearTimers s = clearGhostNotes s"
        by (simp add: orbitClearTimers_def Some True)
      then have "timers (orbitClearTimers s)
          = filter (\<lambda>t. tm_id t \<notin> set (ghostNoteTimers s)) (timers s)"
        by (simp add: clearGhostNotes_effect)
      also have "\<dots> = filter (\<lambda>t. tm_id t \<notin> set (ghostNoteTimers s)
                 \<and> (orbitTimer s = Some (tm_id t) \<longrightarrow> tm_id t = 0)) (timers s)"
        by (rule filter_cong) (auto simp: Some True)
      finally show ?thesis .
    next
      case False
      have "orbitClearTimers s = clearGhostNotes ((clearTimeout h s)\<lparr>orbitTimer := None\<rparr>)"
        by (simp add: orbitClearTimers_def Some False)
      then have "timers (orbitClearTimers s)
          = filter (\<lambda>t. tm_id t \<notin> set (ghostNoteTimers s) \<and> tm_id t \<noteq> h) (timers s)"
        by (simp add: clearGhostNotes_effect clearTimeout_def conj_commute)
      also have "\<dots> = filter (\<lambda>t. tm_id t \<notin> set (ghostNoteTimers s)
                 \<and> (orbitTimer s = Some (tm_id t) \<longrightarrow> tm_id t = 0)) (timers s)"
        by (rule filter_cong) (auto simp: Some False)
      finally show ?thesis .
    qed
  qed
  show "ghostNoteTimers (orbitClearTimers s) = []"
    by (cases "orbitTimer s") (simp_all add: orbitClearTimers_def clearGhostNotes_effect clearTimeout_def)
  show "orbitTimer (orbitClearTimers s) = None \<or> orbitTimer (orbitClearTimers s) = Some 0"
    by (cases "orbitTimer s") (simp_all add: orbitClearTimers_def clearGhostNotes_effect clearTimeout_def)
qed

lemma phase_not_ghost: "isPhaseTimer t \<Longrightarrow> \<not> isGhostTimer t"
  by (auto simp: isPhaseTimer_def isGhostTimer_def)

lemma tracked_filter:
  assumes "timersTracked s"
      and "timers s' = filter P (timers s)"
      and "nextTimerId s' = nextTimerId s"
      and "\<And>t. t \<in> set (timers s) \<Longrightarrow> P t \<Longrightarrow> isPhaseTimer t \<Longrightarrow> orbitTimer s' = Some (tm_id t)"
      and "\<And>t. t \<in> set (timers s) \<Longrightarrow> P t \<Longrightarrow> isGhostTimer t \<Longrightarrow> tm_id t \<in> set (ghostNoteTimers s')"
  shows "timersTracked s'"
proof -
  have "distinct (map tm_id (timers s'))"
    using assms(1,2) by (simp add: timersTracked_iff distinct_map_filter)
  moreover have "0 < nextTimerId s'"
    using assms(1,3) by (simp add: timersTracked_iff)
  moreover have "\<forall>t\<in>set (timers s'). 0 < tm_id t \<and> tm_id t < nextTimerId s'"
    using assms(1,2,3) by (simp add: timersTracked_iff)
  moreover have "\<forall>t\<in>set (timers s'). isPhaseTimer t \<longrightarrow> orbitTimer s' = Some (tm_id t)"
    using assms(2,4) by simp
  moreover have "\<forall>t\<in>set (timers s'). isGhostTimer t \<longrightarrow> tm_id t \<in> set (ghostNoteTimers s')"
    using assms(2,5) by simp
  ultimately show ?thesis by (simp add: timersTracked_iff)
qed

lemma noPhase_filter: "noPhaseTimer s \<Longrightarrow> timers s' = filter P (timers s) \<Longrightarrow> noPhaseTimer s'"
  by (simp add: noPhaseTimer_iff)

lemma noOrbit_filter: "noOrbitTimer s \<Longrightarrow> timers s' = filter P (timers s) \<Longrightarrow> noOrbitTimer s'"
  by (simp add: noOrbitTimer_iff)

lemma tracked_clearTimeout: "timersTracked s \<Longrightarrow> timersTracked (clearTimeout h s)"
proof (rule tracked_filter[where P = "\<lambda>t. tm_id t \<noteq> h"])
  assume a: "timersTracked s"
  show "timersTracked s" by (rule a)
  show "timers (clearTimeout h s) = filter (\<lambda>t. tm_id t \<noteq> h) (timers s)"
    by (simp add: clearTimeout_def)
  show "nextTimerId (clearTimeout h s) = nextTimerId s" by (simp add: clearTimeout_def)
  show "orbitTimer (clearTimeout h s) = Some (tm_id t)" if "t \<in> set (timers s)" "isPhaseTimer t" for t
    using a that by (simp add: timersTracked_iff clearTimeout_def)
  show "tm_id t \<in> set (ghostNoteTimers (clearTimeout h s))" if "t \<in> set (timers s)" "isGhostTimer t" for t
    using a that by (simp add: timersTracked_iff clearTimeout_def)
qed

lemma noOrbit_orbitClearTimers:
  assumes "timersTracked s"
  shows "noOrbitTimer (orbitClearTimers s)"
proof -
  have "\<not> isPhaseTimer t \<and> \<not> isGhostTimer t" if "t \<in> set (timers (orbitClearTimers s))" for t
  proof -
    from that have m: "t \<in> set (timers s)" and g: "tm_id t \<notin> set (ghostNoteTimers s)"
      and p: "orbitTimer s = Some (tm_id t) \<longrightarrow> tm_id t = 0"
      by (simp_all add: orbitClearTimers_effect)
    have pos: "0 < tm_id t" using assms m by (simp add: timersTracked_iff)
    have "\<not> isPhaseTimer t" using assms m p pos by (auto simp: timersTracked_iff)
    moreover have "\<not> isGhostTimer t" using assms m g by (auto simp: timersTracked_iff)
    ultimately show ?thesis by simp
  qed
  then show ?thesis by (simp add: noOrbitTimer_iff)
qed

lemma tracked_orbitClearTimers:
  assumes "timersTracked s"
  shows "timersTracked (orbitClearTimers s)"
proof -
  have n: "\<forall>t\<in>set (timers (orbitClearTimers s)). \<not> isPhaseTimer t \<and> \<not> isGhostTimer t"
    using noOrbit_orbitClearTimers[OF assms] by (simp add: noOrbitTimer_iff)
  have "distinct (map tm_id (timers (orbitClearTimers s)))"
    using assms by (simp add: timersTracked_iff orbitClearTimers_effect distinct_map_filter)
  moreover have "\<forall>t\<in>set (timers (orbitClearTimers s)).
       0 < tm_id t \<and> tm_id t < nextTimerId (orbitClearTimers s)"
    using assms by (simp add: timersTracked_iff orbitClearTimers_effect)
  moreover have "0 < nextTimerId (orbitClearTimers s)"
    using assms by (simp add: timersTracked_iff)
  ultimately show ?thesis using n by (simp add: timersTracked_iff)
qed

lemma tracked_clearGhostNotes:
  assumes "timersTracked s"
  shows "timersTracked (clearGhostNotes s)"
proof (rule tracked_filter[where P = "\<lambda>t. tm_id t \<notin> set (ghostNoteTimers s)"])
  show "timersTracked s" by (rule assms)
  show "timers (clearGhostNotes s) = filter (\<lambda>t. tm_id t \<notin> set (ghostNoteTimers s)) (timers s)"
    by (simp add: clearGhostNotes_effect)
  show "nextTimerId (clearGhostNotes s) = nextTimerId s" by simp
  show "orbitTimer (clearGhostNotes s) = Some (tm_id t)" if "t \<in> set (timers s)" "isPhaseTimer t" for t
    using assms that by (simp add: timersTracked_iff)
  show "tm_id t \<in> set (ghostNoteTimers (clearGhostNotes s))"
    if "t \<in> set (timers s)" "tm_id t \<notin> set (ghostNoteTimers s)" "isGhostTimer t" for t
    using assms that by (simp add: timersTracked_iff)
qed

lemma noPhase_clearGhostNotes: "noPhaseTimer s \<Longrightarrow> noPhaseTimer (clearGhostNotes s)"
  by (rule noPhase_filter[where P = "\<lambda>t. tm_id t \<notin> set (ghostNoteTimers s)"])
     (simp_all add: clearGhostNotes_effect)

text \<open>Adding timers.\<close>

lemma tracked_setTimeout_other:
  assumes "timersTracked s" and "k = ToneRelease \<or> k = ToneDispose"
  shows "timersTracked (snd (setTimeout k d s))"
  using assms
  by (auto simp: timersTracked_iff setTimeout_def isPhaseTimer_def isGhostTimer_def less_Suc_eq)

lemma noPhase_setTimeout_other:
  "noPhaseTimer s \<Longrightarrow> k = ToneRelease \<or> k = ToneDispose \<or> k = GhostNote
    \<Longrightarrow> noPhaseTimer (snd (setTimeout k d s))"
  by (auto simp: noPhaseTimer_iff setTimeout_def isPhaseTimer_def)

lemma tracked_setTimeout_phase:
  assumes "timersTracked s" and "noPhaseTimer s"
      and "k = BurstEnd \<or> k = GapEnd \<or> k = SilenceEnd"
  shows "timersTracked ((snd (setTimeout k d s))\<lparr>orbitTimer := Some (fst (setTimeout k d s))\<rparr>)"
  using assms
  by (auto simp: timersTracked_iff noPhaseTimer_iff setTimeout_def isGhostTimer_def less_Suc_eq)

lemma tracked_setTimeout_ghost:
  assumes "timersTracked s"
  shows "timersTracked ((snd (setTimeout GhostNote d s))
            \<lparr>ghostNoteTimers := ghostNoteTimers s @ [fst (setTimeout GhostNote d s)]\<rparr>)"
  using assms
  by (auto simp: timersTracked_iff setTimeout_def isPhaseTimer_def less_Suc_eq)

text \<open>The ghost notes.\<close>

lemma tracked_random [simp]: "timersTracked (snd (random s)) = timersTracked s"
  by (rule tracked_cong) simp_all

lemma noPhase_random [simp]: "noPhaseTimer (snd (random s)) = noPhaseTimer s"
  by (rule noPhase_cong) simp

lemma tracked_audioCall [simp]: "timersTracked (audioCall c s) = timersTracked s"
  by (rule tracked_cong) simp_all

lemma noPhase_audioCall [simp]: "noPhaseTimer (audioCall c s) = noPhaseTimer s"
  by (rule noPhase_cong) simp

lemma scheduleLoop_tracked:
  "timersTracked s \<Longrightarrow> timersTracked (scheduleLoop n d s)"
proof (induction n arbitrary: s)
  case 0
  then show ?case by simp
next
  case (Suc n)
  define s1 where "s1 = snd (random s)"
  define dl where "dl = 500 + fst (random s) * max 500 (d - 1500)"
  define s2 where "s2 = (snd (setTimeout GhostNote dl s1))
            \<lparr>ghostNoteTimers := ghostNoteTimers s1 @ [fst (setTimeout GhostNote dl s1)]\<rparr>"
  have "timersTracked s1" using Suc.prems by (simp add: s1_def)
  then have "timersTracked s2" unfolding s2_def by (rule tracked_setTimeout_ghost)
  then have "timersTracked (scheduleLoop n d s2)" by (rule Suc.IH)
  moreover have "scheduleLoop (Suc n) d s = scheduleLoop n d s2"
    by (simp add: s2_def s1_def dl_def split_def Let_def)
  ultimately show ?case by simp
qed

lemma scheduleLoop_noPhase:
  "noPhaseTimer s \<Longrightarrow> noPhaseTimer (scheduleLoop n d s)"
proof (induction n arbitrary: s)
  case 0
  then show ?case by simp
next
  case (Suc n)
  define s1 where "s1 = snd (random s)"
  define dl where "dl = 500 + fst (random s) * max 500 (d - 1500)"
  define s2 where "s2 = (snd (setTimeout GhostNote dl s1))
            \<lparr>ghostNoteTimers := ghostNoteTimers s1 @ [fst (setTimeout GhostNote dl s1)]\<rparr>"
  have "noPhaseTimer s1" using Suc.prems by (simp add: s1_def)
  then have "noPhaseTimer (snd (setTimeout GhostNote dl s1))"
    by (rule noPhase_setTimeout_other) simp
  then have "noPhaseTimer s2" by (simp add: s2_def noPhaseTimer_def)
  then have "noPhaseTimer (scheduleLoop n d s2)" by (rule Suc.IH)
  moreover have "scheduleLoop (Suc n) d s = scheduleLoop n d s2"
    by (simp add: s2_def s1_def dl_def split_def Let_def)
  ultimately show ?case by simp
qed

lemma scheduleGhostNotes_tracked:
  "timersTracked s \<Longrightarrow> timersTracked (scheduleGhostNotes d s)"
  by (simp add: scheduleGhostNotes_def Let_def split_def scheduleLoop_tracked tracked_clearGhostNotes)

lemma scheduleGhostNotes_noPhase:
  "noPhaseTimer s \<Longrightarrow> noPhaseTimer (scheduleGhostNotes d s)"
  by (simp add: scheduleGhostNotes_def Let_def split_def scheduleLoop_noPhase noPhase_clearGhostNotes)

lemma playGhostNote_tracked: "timersTracked s \<Longrightarrow> timersTracked (playGhostNote s)"
  by (simp add: playGhostNote_def Let_def split_def tracked_setTimeout_other split: option.splits)

lemma playGhostNote_noPhase: "noPhaseTimer s \<Longrightarrow> noPhaseTimer (playGhostNote s)"
  by (simp add: playGhostNote_def Let_def split_def noPhase_setTimeout_other split: option.splits)

lemma toneReleased_tracked: "timersTracked s \<Longrightarrow> timersTracked (toneReleased s)"
  by (simp add: toneReleased_def Let_def split_def tracked_setTimeout_other)

lemma toneReleased_noPhase: "noPhaseTimer s \<Longrightarrow> noPhaseTimer (toneReleased s)"
  by (simp add: toneReleased_def Let_def split_def noPhase_setTimeout_other)

lemma discipline_neutral [simp]:
  "timerDiscipline (snd (random s)) = timerDiscipline s"
  "timerDiscipline (audioCall c s) = timerDiscipline s"
  "timerDiscipline (updateNode i f s) = timerDiscipline s"
  "timerDiscipline (glowTargets t5 s) = timerDiscipline s"
  "timerDiscipline (animateNodes ease s) = timerDiscipline s"
  "timerDiscipline (filterSweep s) = timerDiscipline s"
  "timerDiscipline (applyOrbitAudio s) = timerDiscipline s"
  "timerDiscipline (restoreOrbitAudio s) = timerDiscipline s"
  "timerDiscipline (orbitRandomizeArp s) = timerDiscipline s"
  "timerDiscipline (restorePositions saved s) = timerDiscipline s"
  "timerDiscipline (snd (pickNext cur s)) = timerDiscipline s"
  "timerDiscipline (snd (pickStart s)) = timerDiscipline s"
  by (rule discipline_cong; simp)+

lemma tracked_neutral [simp]:
  "timersTracked (updateNode i f s) = timersTracked s"
  "timersTracked (glowTargets t5 s) = timersTracked s"
  "timersTracked (animateNodes ease s) = timersTracked s"
  "timersTracked (filterSweep s) = timersTracked s"
  "timersTracked (applyOrbitAudio s) = timersTracked s"
  "timersTracked (restoreOrbitAudio s) = timersTracked s"
  "timersTracked (orbitRandomizeArp s) = timersTracked s"
  "timersTracked (restorePositions saved s) = timersTracked s"
  "timersTracked (snd (pickNext cur s)) = timersTracked s"
  "timersTracked (snd (pickStart s)) = timersTracked s"
  by (rule tracked_cong; simp)+

lemma noPhase_neutral [simp]:
  "noPhaseTimer (updateNode i f s) = noPhaseTimer s"
  "noPhaseTimer (glowTargets t5 s) = noPhaseTimer s"
  "noPhaseTimer (animateNodes ease s) = noPhaseTimer s"
  "noPhaseTimer (filterSweep s) = noPhaseTimer s"
  "noPhaseTimer (applyOrbitAudio s) = noPhaseTimer s"
  "noPhaseTimer (restoreOrbitAudio s) = noPhaseTimer s"
  "noPhaseTimer (orbitRandomizeArp s) = noPhaseTimer s"
  "noPhaseTimer (restorePositions saved s) = noPhaseTimer s"
  "noPhaseTimer (snd (pickNext cur s)) = noPhaseTimer s"
  "noPhaseTimer (snd (pickStart s)) = noPhaseTimer s"
  by (rule noPhase_cong; simp)+

lemma noOrbit_neutral [simp]:
  "noOrbitTimer (snd (random s)) = noOrbitTimer s"
  "noOrbitTimer (audioCall c s) = noOrbitTimer s"
  "noOrbitTimer (restoreOrbitAudio s) = noOrbitTimer s"
  "noOrbitTimer (restorePositions saved s) = noOrbitTimer s"
  by (rule noOrbit_cong; simp)+

lemma discipline_orbitBeginCentering:
  assumes "timersTracked s" and "noPhaseTimer s" and "orbitMode s"
  shows "timerDiscipline (orbitBeginCentering node s)"
proof -
  have "timersTracked (orbitBeginCentering node s) = timersTracked s"
    by (rule tracked_cong) simp_all
  moreover have "noPhaseTimer (orbitBeginCentering node s) = noPhaseTimer s"
    by (rule noPhase_cong) simp
  ultimately show ?thesis using assms by (simp add: timerDiscipline_iff)
qed

lemma discipline_orbitOnNodeClick:
  assumes "timerDiscipline s"
  shows "timerDiscipline (orbitOnNodeClick i s)"
proof (cases "\<not> orbitMode s \<or> orbitAutoTriggered s")
  case True
  then show ?thesis using assms by (simp add: orbitOnNodeClick_def)
next
  case False
  have t: "timersTracked s" using assms by (simp add: timerDiscipline_iff)
  have "timerDiscipline (orbitBeginCentering (Some i) (orbitClearTimers s))"
    using False tracked_orbitClearTimers[OF t] noOrbit_noPhase[OF noOrbit_orbitClearTimers[OF t]]
    by (intro discipline_orbitBeginCentering) simp_all
  then show ?thesis using False by (simp add: orbitOnNodeClick_def)
qed

lemma handleNodePress_unfold:
  "handleNodePress i s =
     (let s1 = glowTargets (orbitTop5 (updateNode i (\<lambda>n. n\<lparr>nd_glow := 100\<rparr>)
                  (audioCall (StartChord (nd_data (nodes s ! i)))
                     (s\<lparr>activeNode := Some i, lastPlayedNode := Some i\<rparr>))) i)
                (updateNode i (\<lambda>n. n\<lparr>nd_glow := 100\<rparr>)
                  (audioCall (StartChord (nd_data (nodes s ! i)))
                     (s\<lparr>activeNode := Some i, lastPlayedNode := Some i\<rparr>)))
      in if orbitMode s then orbitOnNodeClick i s1 else s1)"
  by (simp add: handleNodePress_def Let_def)

lemma discipline_handleNodePress:
  assumes "timerDiscipline s"
  shows "timerDiscipline (handleNodePress i s)"
proof -
  have "timerDiscipline (s\<lparr>activeNode := Some i, lastPlayedNode := Some i\<rparr>) = timerDiscipline s"
    by (rule discipline_cong) simp_all
  then have "timerDiscipline (s\<lparr>activeNode := Some i, lastPlayedNode := Some i\<rparr>)"
    using assms by simp
  then show ?thesis
    by (simp add: handleNodePress_unfold Let_def discipline_orbitOnNodeClick)
qed

lemma handleNodePress_auto:
  assumes "orbitAutoTriggered s"
  shows "timers (handleNodePress i s) = timers s"
    and "nextTimerId (handleNodePress i s) = nextTimerId s"
    and "orbitTimer (handleNodePress i s) = orbitTimer s"
    and "ghostNoteTimers (handleNodePress i s) = ghostNoteTimers s"
    and "orbitPhase (handleNodePress i s) = orbitPhase s"
  using assms by (simp_all add: handleNodePress_unfold Let_def orbitOnNodeClick_def)

lemma discipline_phase_timer:
  assumes "timersTracked s" and "noPhaseTimer s" and "orbitMode s'" and "orbitPhase s' \<noteq> Centering"
      and "s' = (snd (setTimeout k d s))\<lparr>orbitTimer := Some (fst (setTimeout k d s))\<rparr>"
      and "k = BurstEnd \<or> k = GapEnd \<or> k = SilenceEnd"
  shows "timerDiscipline s'"
  using assms tracked_setTimeout_phase[of s k d] by (simp add: timerDiscipline_iff)

lemma discipline_orbitPlayBurst:
  assumes "timerDiscipline s"
  shows "timerDiscipline (orbitPlayBurst s)"
proof (cases "orbitNextNode s")
  case None
  then show ?thesis using assms by (simp add: orbitPlayBurst_def)
next
  case (Some nx)
  show ?thesis
  proof (cases "orbitMode s")
    case False
    then show ?thesis using assms Some by (simp add: orbitPlayBurst_def)
  next
    case True
    define s1 where "s1 = orbitRandomizeArp (s\<lparr>orbitPhase := Bursting, orbitIsSounding := True\<rparr>)"
    define s2 where "s2 = (if audioInitialized s1
                           then audioCall (FilterFreq (calcWarmthFreq (sliders s1))) s1 else s1)"
    define s3 where "s3 = handleNodePress nx (s2\<lparr>orbitAutoTriggered := True\<rparr>)"
    define s4 where "s4 = snd (random (s3\<lparr>orbitAutoTriggered := False\<rparr>))"
    define ms where "ms = calcBurstMs (sliders s4) (fst (random (s3\<lparr>orbitAutoTriggered := False\<rparr>)))"
    define s5 where "s5 = orbitClearTimers s4"
    have eq: "orbitPlayBurst s =
        (snd (setTimeout BurstEnd ms s5))\<lparr>orbitTimer := Some (fst (setTimeout BurstEnd ms s5))\<rparr>"
      by (simp add: orbitPlayBurst_def Some True Let_def split_def s1_def s2_def s3_def s4_def
            s5_def ms_def)
    have "timersTracked s" using assms by (simp add: timerDiscipline_iff)
    then have "timersTracked (s\<lparr>orbitPhase := Bursting, orbitIsSounding := True\<rparr>)"
      by (simp add: timersTracked_def)
    then have "timersTracked s2" by (simp add: s1_def s2_def)
    then have "timersTracked (s2\<lparr>orbitAutoTriggered := True\<rparr>)" by (simp add: timersTracked_def)
    then have "timersTracked s3"
      unfolding s3_def
      by (subst tracked_cong[where s = "s2\<lparr>orbitAutoTriggered := True\<rparr>"])
         (simp_all add: handleNodePress_auto)
    then have "timersTracked (s3\<lparr>orbitAutoTriggered := False\<rparr>)" by (simp add: timersTracked_def)
    then have t4: "timersTracked s4" by (simp add: s4_def)
    have t5: "timersTracked s5" unfolding s5_def using t4 by (rule tracked_orbitClearTimers)
    have n5: "noPhaseTimer s5"
      unfolding s5_def using t4 by (intro noOrbit_noPhase noOrbit_orbitClearTimers)
    have m: "orbitMode (orbitPlayBurst s)" using True by simp
    have "orbitPhase s5 = Bursting"
      by (simp add: s5_def s4_def s3_def handleNodePress_auto s2_def s1_def)
    then have p: "orbitPhase (orbitPlayBurst s) \<noteq> Centering" by (simp add: eq)
    show ?thesis using t5 n5 m p eq by (rule discipline_phase_timer) simp
  qed
qed

lemma discipline_orbitStartSilence:
  assumes "timerDiscipline s" and "noPhaseTimer s"
  shows "timerDiscipline (orbitStartSilence s)"
proof (cases "orbitMode s")
  case False
  then show ?thesis using assms by (simp add: orbitStartSilence_def)
next
  case True
  define s1 where "s1 = snd (random (s\<lparr>orbitPhase := Silence, orbitIsSounding := False\<rparr>))"
  define ms where "ms = calcSilenceMs (sliders s1)
                          (fst (random (s\<lparr>orbitPhase := Silence, orbitIsSounding := False\<rparr>)))"
  define s2 where "s2 = scheduleGhostNotes ms s1"
  have eq: "orbitStartSilence s =
      (snd (setTimeout SilenceEnd ms s2))\<lparr>orbitTimer := Some (fst (setTimeout SilenceEnd ms s2))\<rparr>"
    by (simp add: orbitStartSilence_def True Let_def split_def s1_def s2_def ms_def)
  have "timersTracked s" using assms by (simp add: timerDiscipline_iff)
  then have "timersTracked (s\<lparr>orbitPhase := Silence, orbitIsSounding := False\<rparr>)"
    by (simp add: timersTracked_def)
  then have "timersTracked s1" by (simp add: s1_def)
  then have t2: "timersTracked s2" unfolding s2_def by (rule scheduleGhostNotes_tracked)
  have "noPhaseTimer (s\<lparr>orbitPhase := Silence, orbitIsSounding := False\<rparr>)"
    using assms(2) by (simp add: noPhaseTimer_def)
  then have "noPhaseTimer s1" by (simp add: s1_def)
  then have n2: "noPhaseTimer s2" unfolding s2_def by (rule scheduleGhostNotes_noPhase)
  have m: "orbitMode (orbitStartSilence s)" using True by simp
  have "orbitPhase s2 = Silence" by (simp add: s2_def s1_def)
  then have p: "orbitPhase (orbitStartSilence s) \<noteq> Centering" by (simp add: eq)
  show ?thesis using t2 n2 m p eq by (rule discipline_phase_timer) simp
qed

lemma discipline_burstEnded:
  assumes "timerDiscipline s" and "noPhaseTimer s" and "orbitPhase s \<noteq> Centering"
  shows "timerDiscipline (burstEnded s)"
proof (cases "orbitMode s")
  case False
  then show ?thesis using assms by (simp add: burstEnded_def)
next
  case True
  define s1 where "s1 = (audioCall StopChord (s\<lparr>orbitIsSounding := False\<rparr>))
                           \<lparr>orbitBurstCount := orbitBurstCount s - 1\<rparr>"
  have d1: "timerDiscipline s1 = timerDiscipline s"
    by (rule discipline_cong) (simp_all add: s1_def)
  have n1: "noPhaseTimer s1 = noPhaseTimer s"
    by (rule noPhase_cong) (simp add: s1_def)
  show ?thesis
  proof (cases "orbitBurstCount s1 > 0")
    case False
    then have "burstEnded s = orbitStartSilence s1"
      using True by (simp add: burstEnded_def Let_def s1_def audioCall_def)
    then show ?thesis using assms d1 n1 by (simp add: discipline_orbitStartSilence)
  next
    case gap: True
    define s2 where "s2 = snd (random s1)"
    define ms where "ms = calcGapMs (sliders s2) (fst (random s1))"
    have eq: "burstEnded s =
        (snd (setTimeout GapEnd ms s2))\<lparr>orbitTimer := Some (fst (setTimeout GapEnd ms s2))\<rparr>"
      using True gap
      by (simp add: burstEnded_def Let_def split_def s1_def s2_def ms_def audioCall_def)
    have t2: "timersTracked s2" using assms(1) d1 by (simp add: s2_def timerDiscipline_iff)
    have n2: "noPhaseTimer s2" using assms(2) n1 by (simp add: s2_def)
    have m: "orbitMode (burstEnded s)" using True by simp
    have "orbitPhase s2 = orbitPhase s" by (simp add: s2_def s1_def)
    then have p: "orbitPhase (burstEnded s) \<noteq> Centering" using assms(3) by (simp add: eq)
    show ?thesis using t2 n2 m p eq by (rule discipline_phase_timer) simp
  qed
qed

lemma discipline_orbitAutoSelectNext:
  assumes "timerDiscipline s" and "noPhaseTimer s"
  shows "timerDiscipline (orbitAutoSelectNext cur s)"
proof (cases "cur = None \<or> \<not> orbitMode s")
  case True
  then show ?thesis using assms by (auto simp: orbitAutoSelectNext_def split: option.splits)
next
  case False
  then obtain c where c: "cur = Some c" and m: "orbitMode s" by auto
  have eq: "orbitAutoSelectNext cur s = orbitBeginCentering (fst (pickNext c s)) (snd (pickNext c s))"
    by (simp add: orbitAutoSelectNext_def c m split_def Let_def)
  have "timersTracked (snd (pickNext c s))" using assms(1) by (simp add: timerDiscipline_iff)
  moreover have "noPhaseTimer (snd (pickNext c s))" using assms(2) by simp
  moreover have "orbitMode (snd (pickNext c s))" using m by simp
  ultimately show ?thesis unfolding eq by (rule discipline_orbitBeginCentering)
qed

lemma toneReleased_noOrbit: "noOrbitTimer s \<Longrightarrow> noOrbitTimer (toneReleased s)"
  by (simp add: toneReleased_def Let_def split_def noOrbitTimer_iff setTimeout_def
        isPhaseTimer_def isGhostTimer_def)

lemma discipline_toneReleased: "timerDiscipline s \<Longrightarrow> timerDiscipline (toneReleased s)"
  by (simp add: timerDiscipline_iff toneReleased_tracked toneReleased_noPhase toneReleased_noOrbit)

lemma discipline_playGhostNote:
  assumes "timerDiscipline s"
  shows "timerDiscipline (playGhostNote s)"
proof (cases "orbitMode s")
  case False
  then show ?thesis using assms by (simp add: playGhostNote_def)
next
  case True
  then show ?thesis using assms
    by (simp add: timerDiscipline_iff playGhostNote_tracked playGhostNote_noPhase)
qed

lemma discipline_clearTimeout:
  assumes "timerDiscipline s"
  shows "timerDiscipline (clearTimeout h s)"
proof -
  have a: "timers (clearTimeout h s) = filter (\<lambda>t. tm_id t \<noteq> h) (timers s)" by simp
  have "timersTracked (clearTimeout h s)"
    using assms by (simp add: timerDiscipline_iff tracked_clearTimeout)
  moreover have "noOrbitTimer (clearTimeout h s)" if "noOrbitTimer s"
    using that a by (rule noOrbit_filter)
  moreover have "noPhaseTimer (clearTimeout h s)" if "noPhaseTimer s"
    using that a by (rule noPhase_filter)
  ultimately show ?thesis using assms by (simp add: timerDiscipline_iff)
qed

lemma find_pending:
  assumes "find (\<lambda>t. tm_id t = h) (timers s) = Some t"
  shows "t \<in> set (timers s)" and "tm_id t = h"
  using assms by (auto simp: find_Some_iff)

lemma fired_phase_timer:
  assumes "timerDiscipline s" and "t \<in> set (timers s)" and "isPhaseTimer t"
  shows "noPhaseTimer (clearTimeout (tm_id t) s)" and "orbitPhase s \<noteq> Centering"
proof -
  have tr: "timersTracked s" using assms(1) by (simp add: timerDiscipline_iff)
  have "\<not> isPhaseTimer u" if "u \<in> set (timers s)" "tm_id u \<noteq> tm_id t" for u
  proof
    assume "isPhaseTimer u"
    then have "orbitTimer s = Some (tm_id u)" using tr that(1) by (simp add: timersTracked_iff)
    moreover have "orbitTimer s = Some (tm_id t)" using tr assms(2,3) by (simp add: timersTracked_iff)
    ultimately show False using that(2) by simp
  qed
  then show "noPhaseTimer (clearTimeout (tm_id t) s)" by (auto simp: noPhaseTimer_iff)
  show "orbitPhase s \<noteq> Centering"
    using assms by (auto simp: timerDiscipline_iff noPhaseTimer_iff)
qed

lemma discipline_fireTimer:
  assumes "timerDiscipline s"
  shows "timerDiscipline (fireTimer h s)"
proof (cases "find (\<lambda>t. tm_id t = h) (timers s)")
  case None
  then show ?thesis using assms by (simp add: fireTimer_def)
next
  case (Some t)
  note p = find_pending[OF Some]
  define s1 where "s1 = clearTimeout h s"
  have eq: "fireTimer h s = timerCallback (tm_kind t) s1" by (simp add: fireTimer_def Some s1_def)
  have d1: "timerDiscipline s1" unfolding s1_def using assms by (rule discipline_clearTimeout)
  have ph: "noPhaseTimer s1 \<and> orbitPhase s1 \<noteq> Centering" if "isPhaseTimer t"
    using fired_phase_timer[OF assms p(1) that] p(2) by (simp add: s1_def)
  show ?thesis
  proof (cases "tm_kind t")
    case BurstEnd
    then have "isPhaseTimer t" by (simp add: isPhaseTimer_def)
    then show ?thesis using d1 ph BurstEnd by (simp add: eq timerCallback_def discipline_burstEnded)
  next
    case GapEnd
    then show ?thesis using d1 by (simp add: eq timerCallback_def discipline_orbitPlayBurst)
  next
    case SilenceEnd
    then have "isPhaseTimer t" by (simp add: isPhaseTimer_def)
    then show ?thesis using d1 ph SilenceEnd
      by (simp add: eq timerCallback_def discipline_orbitAutoSelectNext)
  next
    case GhostNote
    then show ?thesis using d1 by (simp add: eq timerCallback_def discipline_playGhostNote)
  next
    case ToneRelease
    then show ?thesis using d1 by (simp add: eq timerCallback_def discipline_toneReleased)
  next
    case ToneDispose
    then show ?thesis using d1 by (simp add: eq timerCallback_def)
  qed
qed

lemma discipline_toggleOrbit:
  assumes "timerDiscipline s"
  shows "timerDiscipline (toggleOrbit s)"
proof (cases "orbitMode s")
  case False
  define s1 where "s1 = snd (random ((applyOrbitAudio (s\<lparr>orbitMode := True,
        orbitSavedPositions := Some (map (\<lambda>n. (nd_name n, nd_x n, nd_y n)) (nodes s))\<rparr>))
        \<lparr>orbitPhase := Idle, orbitBurstCount := 0, orbitIsSounding := False,
         orbitVisibleNodes := {}, orbitCenterNode := None\<rparr>))"
  define s2 where "s2 = snd (pickStart (s1\<lparr>filterSweepPhase :=
        fst (random ((applyOrbitAudio (s\<lparr>orbitMode := True,
        orbitSavedPositions := Some (map (\<lambda>n. (nd_name n, nd_x n, nd_y n)) (nodes s))\<rparr>))
        \<lparr>orbitPhase := Idle, orbitBurstCount := 0, orbitIsSounding := False,
         orbitVisibleNodes := {}, orbitCenterNode := None\<rparr>)) * 100\<rparr>))"
  have eq: "toggleOrbit s = (case fst (pickStart (s1\<lparr>filterSweepPhase :=
        fst (random ((applyOrbitAudio (s\<lparr>orbitMode := True,
        orbitSavedPositions := Some (map (\<lambda>n. (nd_name n, nd_x n, nd_y n)) (nodes s))\<rparr>))
        \<lparr>orbitPhase := Idle, orbitBurstCount := 0, orbitIsSounding := False,
         orbitVisibleNodes := {}, orbitCenterNode := None\<rparr>)) * 100\<rparr>)) of
            Some i \<Rightarrow> orbitBeginCentering (Some i) s2 | None \<Rightarrow> s2)"
    unfolding s2_def s1_def using False by (simp add: toggleOrbit_def Let_def split_def)
  have f: "timers s2 = timers s" "nextTimerId s2 = nextTimerId s" "orbitTimer s2 = orbitTimer s"
    "ghostNoteTimers s2 = ghostNoteTimers s" "orbitMode s2" "orbitPhase s2 = Idle"
    by (simp_all add: s2_def s1_def)
  have no: "noOrbitTimer s" using assms False by (simp add: timerDiscipline_iff)
  have t2: "timersTracked s2"
    using assms f tracked_cong[of s2 s] by (simp add: timerDiscipline_iff)
  have n2: "noPhaseTimer s2"
    using noOrbit_noPhase[OF no] f noPhase_cong[of s2 s] by simp
  have "timerDiscipline s2" using t2 f by (simp add: timerDiscipline_iff)
  moreover have "timerDiscipline (orbitBeginCentering (Some i) s2)" for i
    using t2 n2 f(5) by (rule discipline_orbitBeginCentering)
  ultimately show ?thesis by (simp add: eq split: option.splits)
next
  case True
  define s1 where "s1 = audioCall StopChord (orbitClearTimers (s\<lparr>orbitMode := False,
        orbitPhase := Idle, orbitNextNode := None, orbitAutoTriggered := False,
        orbitBurstCount := 0, orbitIsSounding := False, orbitVisibleNodes := {},
        orbitCenterNode := None\<rparr>))"
  have eq: "toggleOrbit s = restoreOrbitAudio (case orbitSavedPositions s1 of
                    None \<Rightarrow> s1
                  | Some saved \<Rightarrow> (restorePositions saved s1)\<lparr>orbitSavedPositions := None\<rparr>)"
    unfolding s1_def using True by (simp add: toggleOrbit_def Let_def)
  have "timersTracked s" using assms by (simp add: timerDiscipline_iff)
  then have t0: "timersTracked (s\<lparr>orbitMode := False,
        orbitPhase := Idle, orbitNextNode := None, orbitAutoTriggered := False,
        orbitBurstCount := 0, orbitIsSounding := False, orbitVisibleNodes := {},
        orbitCenterNode := None\<rparr>)" by (simp add: timersTracked_def)
  have t1: "timersTracked s1" unfolding s1_def using tracked_orbitClearTimers[OF t0] by simp
  have n1: "noOrbitTimer s1" unfolding s1_def using noOrbit_orbitClearTimers[OF t0] by simp
  have p1: "orbitPhase s1 = Idle" by (simp add: s1_def)
  have d1: "timerDiscipline s1" using t1 n1 p1 by (simp add: timerDiscipline_iff)
  have "timerDiscipline ((restorePositions saved s1)\<lparr>orbitSavedPositions := None\<rparr>)" for saved
  proof -
    have "timerDiscipline ((restorePositions saved s1)\<lparr>orbitSavedPositions := None\<rparr>)
            = timerDiscipline s1"
      by (rule discipline_cong) simp_all
    then show ?thesis using d1 by simp
  qed
  then show ?thesis using d1 by (simp add: eq split: option.splits)
qed

lemma discipline_orbitUpdate:
  assumes "timerDiscipline s"
  shows "timerDiscipline (orbitUpdate s)"
proof -
  have "timerDiscipline (orbitPlayBurst (animateNodes e s))" for e
    using assms by (simp add: discipline_orbitPlayBurst)
  then show ?thesis using assms by (simp add: orbitUpdate_def Let_def)
qed

lemma discipline_step:
  assumes "timerDiscipline s"
  shows "timerDiscipline (step s ev)"
proof -
  have "timerDiscipline (s\<lparr>millis := fst ev\<rparr>) = timerDiscipline s"
    by (rule discipline_cong) simp_all
  then have d: "timerDiscipline (s\<lparr>millis := fst ev\<rparr>)" using assms by simp
  have m: "timerDiscipline ((audioCall StopChord (s\<lparr>millis := fst ev\<rparr>))\<lparr>activeNode := None\<rparr>)
         = timerDiscipline (s\<lparr>millis := fst ev\<rparr>)"
    by (rule discipline_cong) simp_all
  show ?thesis
  proof (cases "snd ev")
    case ToggleOrbit
    then show ?thesis using d by (simp add: step_def Let_def discipline_toggleOrbit)
  next
    case (NodePress i)
    then show ?thesis using d by (simp add: step_def Let_def discipline_handleNodePress)
  next
    case MouseReleased
    then show ?thesis using d m by (simp add: step_def Let_def)
  next
    case Frame
    then show ?thesis using d by (simp add: step_def Let_def discipline_orbitUpdate)
  next
    case (TimerFires h)
    then show ?thesis using d by (simp add: step_def Let_def discipline_fireTimer)
  qed
qed

lemma discipline_run: "timerDiscipline s \<Longrightarrow> timerDiscipline (run s evs)"
  unfolding run_def by (induction evs arbitrary: s) (simp_all add: discipline_step)

lemma at_most_one:
  assumes "distinct (map f xs)" and "\<forall>x\<in>set xs. f x = c"
  shows "length xs \<le> 1"
proof (cases xs)
  case Nil
  then show ?thesis by simp
next
  case (Cons x ys)
  show ?thesis
  proof (cases ys)
    case Nil
    then show ?thesis using Cons by simp
  next
    case (Cons y zs)
    then have "f x = f y" using assms(2) \<open>xs = x # ys\<close> by simp
    then show ?thesis using assms(1) Cons \<open>xs = x # ys\<close> by simp
  qed
qed

lemma tracked_one_phase_timer:
  assumes "timersTracked s"
  shows "length (filter isPhaseTimer (timers s)) \<le> 1"
proof (cases "orbitTimer s")
  case None
  then have "filter isPhaseTimer (timers s) = []"
    using assms by (auto simp: timersTracked_iff filter_empty_conv)
  then show ?thesis by simp
next
  case (Some h)
  show ?thesis
  proof (rule at_most_one[where f = tm_id and c = h])
    show "distinct (map tm_id (filter isPhaseTimer (timers s)))"
      using assms by (simp add: timersTracked_iff distinct_map_filter)
    show "\<forall>x\<in>set (filter isPhaseTimer (timers s)). tm_id x = h"
      using assms Some by (auto simp: timersTracked_iff)
  qed
qed

lemma liveness_check:
  assumes "find (\<lambda>u. tm_id u = h) (timers s) = Some t"
      and "isPhaseTimer t \<or> isGhostTimer t" and "\<not> orbitMode s"
  shows "fireTimer h s = clearTimeout h s"
  using assms
  by (auto simp: fireTimer_def timerCallback_def isPhaseTimer_def isGhostTimer_def burstEnded_def)

lemma ghost_phase_check:
  assumes "find (\<lambda>u. tm_id u = h) (timers s) = Some t"
      and "isGhostTimer t" and "orbitPhase s \<noteq> Silence"
  shows "fireTimer h s = clearTimeout h s"
  using assms by (simp add: fireTimer_def timerCallback_def isGhostTimer_def)

lemma step_toggle_off:
  assumes "timerDiscipline s" and "orbitMode s"
  shows "\<not> orbitMode (step s (tm, ToggleOrbit))" and "noOrbitTimer (step s (tm, ToggleOrbit))"
proof -
  show m: "\<not> orbitMode (step s (tm, ToggleOrbit))"
    using assms(2) by (simp add: step_def Let_def)
  have "timerDiscipline (step s (tm, ToggleOrbit))" using assms(1) by (rule discipline_step)
  then show "noOrbitTimer (step s (tm, ToggleOrbit))" using m by (simp add: timerDiscipline_iff)
qed

text \<open>
  C4 (amended). The timers of the claim are the phase timers (the handle in
  \<open>_orbitTimer\<close>: end of a burst, end of a gap, end of the silence) and the scheduled
  ghost notes (the handles in \<open>_ghostNoteTimers\<close>). From a state that keeps the timer
  discipline, after any sequence of events (orbit button, node presses, mouse releases,
  frames, timers firing in any order):
  \<^item> at most one phase timer is pending;
  \<^item> while orbit mode is off no phase timer and no scheduled ghost note is pending, and
    switching orbit mode off leaves none pending;
  \<^item> while a node is being centered no phase timer is pending.

  In any state at all, a phase timer or a scheduled ghost note that fires while orbit
  mode is off only disappears, and so does a scheduled ghost note that fires outside the
  silence phase. The two release timers of a sounding ghost tone are not among the timers
  of the claim.
\<close>

theorem timer_discipline:
  assumes "timerDiscipline s0"
  shows "length (filter isPhaseTimer (timers (run s0 evs))) \<le> 1
     \<and> (\<not> orbitMode (run s0 evs) \<longrightarrow> noOrbitTimer (run s0 evs))
     \<and> (orbitMode (run s0 evs) \<longrightarrow>
           \<not> orbitMode (step (run s0 evs) (tm, ToggleOrbit))
           \<and> noOrbitTimer (step (run s0 evs) (tm, ToggleOrbit)))
     \<and> (orbitPhase (run s0 evs) = Centering \<longrightarrow> noPhaseTimer (run s0 evs))
     \<and> (find (\<lambda>u. tm_id u = h) (timers s) = Some t \<and> (isPhaseTimer t \<or> isGhostTimer t)
           \<and> \<not> orbitMode s \<longrightarrow> fireTimer h s = clearTimeout h s)
     \<and> (find (\<lambda>u. tm_id u = h) (timers s) = Some t \<and> isGhostTimer t
           \<and> orbitPhase s \<noteq> Silence \<longrightarrow> fireTimer h s = clearTimeout h s)"
proof -
  have d: "timerDiscipline (run s0 evs)" using assms by (rule discipline_run)
  then have "timersTracked (run s0 evs)" by (simp add: timerDiscipline_iff)
  then have "length (filter isPhaseTimer (timers (run s0 evs))) \<le> 1"
    by (rule tracked_one_phase_timer)
  moreover have "\<not> orbitMode (run s0 evs) \<longrightarrow> noOrbitTimer (run s0 evs)"
    using d by (simp add: timerDiscipline_iff)
  moreover have "orbitMode (run s0 evs) \<longrightarrow>
           \<not> orbitMode (step (run s0 evs) (tm, ToggleOrbit))
           \<and> noOrbitTimer (step (run s0 evs) (tm, ToggleOrbit))"
    using step_toggle_off[OF d] by blast
  moreover have "orbitPhase (run s0 evs) = Centering \<longrightarrow> noPhaseTimer (run s0 evs)"
    using d by (simp add: timerDiscipline_iff)
  moreover have "find (\<lambda>u. tm_id u = h) (timers s) = Some t \<and> (isPhaseTimer t \<or> isGhostTimer t)
           \<and> \<not> orbitMode s \<longrightarrow> fireTimer h s = clearTimeout h s"
    using liveness_check by blast
  moreover have "find (\<lambda>u. tm_id u = h) (timers s) = Some t \<and> isGhostTimer t
           \<and> orbitPhase s \<noteq> Silence \<longrightarrow> fireTimer h s = clearTimeout h s"
    using ghost_phase_check by blast
  ultimately show ?thesis by blast
qed

subsection \<open>The sample states\<close>

lemma sampleState_fields:
  "\<not> orbitMode sampleState" "timers sampleState = []" "nextTimerId sampleState = 1"
  "orbitPhase sampleState = Idle" "activeNode sampleState = None"
  "lastPlayedNode sampleState = Some 0" "orbitVisibleNodes sampleState = {}"
  "orbitCenterNode sampleState = None"
  "map nd_name (nodes sampleState) = [''I'', ''IV'', ''V'']"
  "map nd_x (nodes sampleState) = [100, 200, 150]"
  "map nd_y (nodes sampleState) = [100, 100, 200]"
  by (simp_all add: sampleState_def sampleNodes_def)

lemma silenceState_fields:
  "orbitMode silenceState" "audioInitialized silenceState" "orbitPhase silenceState = Silence"
  "orbitTimer silenceState = Some 2" "ghostNoteTimers silenceState = [1]"
  "ghostNoteChordData silenceState = Some \<lparr>cd_root = 0, cd_intervals = [0, 4, 7]\<rparr>"
  "timers silenceState = [\<lparr>tm_id = 1, tm_kind = GhostNote, tm_delay = 700\<rparr>,
                          \<lparr>tm_id = 2, tm_kind = SilenceEnd, tm_delay = 4000\<rparr>]"
  "nextTimerId silenceState = 3"
  by (simp_all add: silenceState_def)

lemma discipline_sampleState: "timerDiscipline sampleState"
  by (simp add: timerDiscipline_def timersTracked_def noOrbitTimer_def sampleState_fields)

lemma discipline_silenceState: "timerDiscipline silenceState"
  by (simp add: timerDiscipline_def timersTracked_def silenceState_fields isPhaseTimer_def
        isGhostTimer_def)

text \<open>
  The discipline holds in \<open>sampleState\<close>. After activation, a frame and a node press at
  most one phase timer is pending and orbit mode is on; the deactivation that follows
  leaves no phase timer and no ghost note pending. With orbit mode off the timer that
  ends the silence only disappears when it fires, and so does the ghost note when a node
  is being centered.
\<close>

theorem timer_discipline_witness:
  "timerDiscipline sampleState
   \<and> length (filter isPhaseTimer
        (timers (run sampleState [(0, ToggleOrbit), (2000, Frame), (2500, NodePress 1)]))) \<le> 1
   \<and> orbitMode (run sampleState [(0, ToggleOrbit), (2000, Frame), (2500, NodePress 1)])
   \<and> noOrbitTimer (step (run sampleState [(0, ToggleOrbit), (2000, Frame), (2500, NodePress 1)])
        (3000, ToggleOrbit))
   \<and> fireTimer 2 (silenceState\<lparr>orbitMode := False\<rparr>) = clearTimeout 2 (silenceState\<lparr>orbitMode := False\<rparr>)
   \<and> fireTimer 1 (silenceState\<lparr>orbitPhase := Centering\<rparr>)
        = clearTimeout 1 (silenceState\<lparr>orbitPhase := Centering\<rparr>)"
proof -
  let ?evs = "[(0, ToggleOrbit), (2000, Frame), (2500, NodePress 1)]"
  have m: "orbitMode (run sampleState ?evs)"
    by (simp add: run_def step_def Let_def sampleState_fields)
  have a: "find (\<lambda>u. tm_id u = 2) (timers (silenceState\<lparr>orbitMode := False\<rparr>))
             = Some \<lparr>tm_id = 2, tm_kind = SilenceEnd, tm_delay = 4000\<rparr>
           \<and> isPhaseTimer \<lparr>tm_id = 2, tm_kind = SilenceEnd, tm_delay = 4000\<rparr>
           \<and> \<not> orbitMode (silenceState\<lparr>orbitMode := False\<rparr>)"
    by (simp add: silenceState_fields isPhaseTimer_def)
  have b: "find (\<lambda>u. tm_id u = 1) (timers (silenceState\<lparr>orbitPhase := Centering\<rparr>))
             = Some \<lparr>tm_id = 1, tm_kind = GhostNote, tm_delay = 700\<rparr>
           \<and> isGhostTimer \<lparr>tm_id = 1, tm_kind = GhostNote, tm_delay = 700\<rparr>
           \<and> orbitPhase (silenceState\<lparr>orbitPhase := Centering\<rparr>) \<noteq> Silence"
    by (simp add: silenceState_fields isGhostTimer_def)
  show ?thesis
    using discipline_sampleState m a b
      timer_discipline[of sampleState ?evs 3000 2 "silenceState\<lparr>orbitMode := False\<rparr>"
        "\<lparr>tm_id = 2, tm_kind = SilenceEnd, tm_delay = 4000\<rparr>"]
      timer_discipline[of sampleState ?evs 3000 1 "silenceState\<lparr>orbitPhase := Centering\<rparr>"
        "\<lparr>tm_id = 1, tm_kind = GhostNote, tm_delay = 700\<rparr>"]
    by blast
qed

lemma playGhostNote_timers:
  assumes "orbitMode s" and "audioInitialized s" and "ghostNoteChordData s = Some cd"
  shows "map (\<lambda>t. (tm_id t, tm_kind t)) (timers (playGhostNote s))
           = map (\<lambda>t. (tm_id t, tm_kind t)) (timers s) @ [(nextTimerId s, ToneRelease)]"
  using assms by (simp add: playGhostNote_def Let_def split_def)

lemma toggleOrbit_off_timers:
  assumes "orbitMode s"
  shows "timers (toggleOrbit s) =
     filter (\<lambda>t. tm_id t \<notin> set (ghostNoteTimers s)
                 \<and> (orbitTimer s = Some (tm_id t) \<longrightarrow> tm_id t = 0)) (timers s)"
proof -
  have "timers (toggleOrbit s) = timers (orbitClearTimers (s\<lparr>orbitMode := False,
        orbitPhase := Idle, orbitNextNode := None, orbitAutoTriggered := False,
        orbitBurstCount := 0, orbitIsSounding := False, orbitVisibleNodes := {},
        orbitCenterNode := None\<rparr>))"
    using assms by (simp add: toggleOrbit_def Let_def split: option.splits)
  then show ?thesis by (simp add: orbitClearTimers_effect)
qed

lemma tone_release_acts:
  assumes "find (\<lambda>u. tm_id u = h) (timers s) = Some t" and "tm_kind t = ToneRelease"
  shows "audioLog (fireTimer h s) = audioLog s @ [GhostFade]"
    and "map tm_kind (timers (fireTimer h s))
           = map tm_kind (filter (\<lambda>u. tm_id u \<noteq> h) (timers s)) @ [ToneDispose]"
  using assms
  by (simp_all add: fireTimer_def timerCallback_def toneReleased_def Let_def split_def
        audioCall_def setTimeout_def clearTimeout_def)

text \<open>
  The release timer of a ghost tone is outside the discipline. In \<open>silenceState\<close> the
  ghost note 1 fires and starts a tone, whose release is the timer 3. Orbit mode is
  switched off: the timers 1 and 2 are gone, the timer 3 is still pending. When it fires
  it fades the tone and sets the timer that stops the oscillators, without a look at
  \<open>orbitMode\<close>.
\<close>

theorem tone_release_counterexample:
  "timerDiscipline silenceState
   \<and> (let s1 = step silenceState (700, TimerFires 1);
           s2 = step s1 (800, ToggleOrbit)
       in map (\<lambda>t. (tm_id t, tm_kind t)) (timers s1) = [(2, SilenceEnd), (3, ToneRelease)]
          \<and> \<not> orbitMode s2
          \<and> map (\<lambda>t. (tm_id t, tm_kind t)) (timers s2) = [(3, ToneRelease)]
          \<and> audioLog (fireTimer 3 s2) = audioLog s2 @ [GhostFade]
          \<and> map tm_kind (timers (fireTimer 3 s2)) = [ToneDispose]
          \<and> fireTimer 3 s2 \<noteq> clearTimeout 3 s2)"
proof -
  define s0 where "s0 = clearTimeout 1 (silenceState\<lparr>millis := 700\<rparr>)"
  define s1 where "s1 = step silenceState (700, TimerFires 1)"
  define s2 where "s2 = step s1 (800, ToggleOrbit)"
  have s0: "orbitMode s0" "audioInitialized s0"
      "ghostNoteChordData s0 = Some \<lparr>cd_root = 0, cd_intervals = [0, 4, 7]\<rparr>"
      "timers s0 = [\<lparr>tm_id = 2, tm_kind = SilenceEnd, tm_delay = 4000\<rparr>]"
      "nextTimerId s0 = 3" "orbitTimer s0 = Some 2" "ghostNoteTimers s0 = [1]"
    by (simp_all add: s0_def silenceState_fields clearTimeout_def)
  have s1: "s1 = playGhostNote s0"
    by (simp add: s1_def s0_def step_def Let_def fireTimer_def timerCallback_def silenceState_fields)
  have t1: "map (\<lambda>t. (tm_id t, tm_kind t)) (timers s1) = [(2, SilenceEnd), (3, ToneRelease)]"
    unfolding s1 using playGhostNote_timers[OF s0(1,2,3)] by (simp add: s0)
  have f1: "orbitMode s1" "orbitTimer s1 = Some 2" "ghostNoteTimers s1 = [1]"
    by (simp_all add: s1 s0)
  have s2: "s2 = toggleOrbit (s1\<lparr>millis := 800\<rparr>)" by (simp add: s2_def step_def)
  have m2: "\<not> orbitMode s2" using f1 by (simp add: s2)
  have "timers s2 = filter (\<lambda>t. tm_id t \<notin> set (ghostNoteTimers (s1\<lparr>millis := 800\<rparr>))
            \<and> (orbitTimer (s1\<lparr>millis := 800\<rparr>) = Some (tm_id t) \<longrightarrow> tm_id t = 0))
          (timers (s1\<lparr>millis := 800\<rparr>))"
    unfolding s2 using f1 by (intro toggleOrbit_off_timers) simp
  then have "timers s2 = filter (\<lambda>t. fst (tm_id t, tm_kind t) \<noteq> 1 \<and> fst (tm_id t, tm_kind t) \<noteq> 2)
          (timers s1)"
    using f1 by (simp cong: filter_cong)
  then have "map (\<lambda>t. (tm_id t, tm_kind t)) (timers s2)
      = filter (\<lambda>p. fst p \<noteq> 1 \<and> fst p \<noteq> 2) (map (\<lambda>t. (tm_id t, tm_kind t)) (timers s1))"
    by (simp add: filter_map o_def)
  then have t2: "map (\<lambda>t. (tm_id t, tm_kind t)) (timers s2) = [(3, ToneRelease)]"
    by (simp add: t1)
  then obtain t where t: "timers s2 = [t]" "tm_id t = 3" "tm_kind t = ToneRelease" by auto
  then have fnd: "find (\<lambda>u. tm_id u = 3) (timers s2) = Some t" by simp
  have a: "audioLog (fireTimer 3 s2) = audioLog s2 @ [GhostFade]"
    using fnd t(3) by (rule tone_release_acts)
  have d: "map tm_kind (timers (fireTimer 3 s2)) = [ToneDispose]"
    using tone_release_acts(2)[OF fnd t(3)] t by simp
  have "audioLog (clearTimeout 3 s2) = audioLog s2" by (simp add: clearTimeout_def)
  then have n: "fireTimer 3 s2 \<noteq> clearTimeout 3 s2" using a by auto
  show ?thesis
    using discipline_silenceState t1 m2 t2 a d n
    unfolding Let_def s1_def[symmetric] s2_def[symmetric] by simp
qed

text \<open>
  On \<open>sampleState\<close>: activation, a frame, a press on V, a mouse release, deactivation.
  The node IV is back at (200, 100).
\<close>

theorem deactivation_restores_positions_witness:
  "\<not> orbitMode sampleState
   \<and> distinct (map nd_name (nodes sampleState))
   \<and> \<not> orbitMode (step (run (step sampleState (0, ToggleOrbit))
          [(2000, Frame), (2500, NodePress 2), (2600, MouseReleased)]) (3000, ToggleOrbit))
   \<and> nd_x (nodes (step (run (step sampleState (0, ToggleOrbit))
          [(2000, Frame), (2500, NodePress 2), (2600, MouseReleased)]) (3000, ToggleOrbit)) ! 1) = 200
   \<and> nd_y (nodes (step (run (step sampleState (0, ToggleOrbit))
          [(2000, Frame), (2500, NodePress 2), (2600, MouseReleased)]) (3000, ToggleOrbit)) ! 1) = 100"
proof -
  have a: "\<not> orbitMode sampleState" by (simp add: sampleState_fields)
  have b: "distinct (map nd_name (nodes sampleState))" by (simp add: sampleState_fields)
  have c: "\<forall>e\<in>set [(2000::real, Frame), (2500, NodePress 2), (2600, MouseReleased)].
             snd e \<noteq> ToggleOrbit" by simp
  have d: "(1::nat) < length (nodes sampleState)"
    by (simp add: sampleState_def sampleNodes_def)
  have x: "nd_x (nodes sampleState ! 1) = 200" "nd_y (nodes sampleState ! 1) = 100"
    by (simp_all add: sampleState_def sampleNodes_def)
  show ?thesis
    using deactivation_restores_positions[OF a b c d, of 0 3000] a b x by simp
qed






end
